theory Spec2Isabelle
  imports Main
begin

section \<open>Strings and the URL functions the code takes from urllib\<close>

text \<open>
  A Python \<open>str\<close> is modelled by the list of its UTF-8 bytes. Every delimiter that
  \<open>quote\<close>, \<open>urlsplit\<close> and \<open>urljoin\<close> look for is ASCII, so they act on the bytes
  as they act on the text. The functions below follow \<open>urllib/parse.py\<close> statement by
  statement.
\<close>

definition ascii_lowercase :: string where
  "ascii_lowercase = ''abcdefghijklmnopqrstuvwxyz''"

definition ascii_uppercase :: string where
  "ascii_uppercase = ''ABCDEFGHIJKLMNOPQRSTUVWXYZ''"

definition ascii_digits :: string where
  "ascii_digits = ''0123456789''"

definition always_safe :: string where
  "always_safe = ascii_uppercase @ ascii_lowercase @ ascii_digits @ ''_.-~''"

definition hexdigit :: "nat \<Rightarrow> char" where
  "hexdigit n = ''0123456789ABCDEF'' ! n"

definition quote_byte :: "char \<Rightarrow> string" where
  "quote_byte c =
     (if c \<in> set always_safe \<or> c = CHR ''/'' then [c]
      else [CHR ''%'', hexdigit ((of_char c :: nat) div 16), hexdigit ((of_char c :: nat) mod 16)])"

definition quote :: "string \<Rightarrow> string" where
  "quote s = concat (map quote_byte s)"

text \<open>\<open>s.split(d)\<close> and \<open>d.join(xs)\<close> for a one-character separator.\<close>

fun split_on :: "char \<Rightarrow> string \<Rightarrow> string list" where
  "split_on d [] = [[]]"
| "split_on d (c # cs) =
     (if c = d then [] # split_on d cs
      else (case split_on d cs of [] \<Rightarrow> [[c]] | x # xs \<Rightarrow> (c # x) # xs))"

fun join_with :: "string \<Rightarrow> string list \<Rightarrow> string" where
  "join_with d [] = []"
| "join_with d [x] = x"
| "join_with d (x # y # ys) = x @ d @ join_with d (y # ys)"

text \<open>\<open>s.split(d, 1)\<close> when \<open>d\<close> occurs in \<open>s\<close>: the text before and after its first occurrence.\<close>

definition split_first :: "char \<Rightarrow> string \<Rightarrow> string \<times> string" where
  "split_first d s = (takeWhile (\<lambda>c. c \<noteq> d) s, tl (dropWhile (\<lambda>c. c \<noteq> d) s))"

definition uses_relative :: "string list" where
  "uses_relative = ['''', ''ftp'', ''http'', ''gopher'', ''nntp'', ''imap'',
     ''wais'', ''file'', ''https'', ''shttp'', ''mms'',
     ''prospero'', ''rtsp'', ''rtsps'', ''rtspu'', ''sftp'',
     ''svn'', ''svn+ssh'', ''ws'', ''wss'']"

definition uses_netloc :: "string list" where
  "uses_netloc = ['''', ''ftp'', ''http'', ''gopher'', ''nntp'', ''telnet'',
     ''imap'', ''wais'', ''file'', ''mms'', ''https'', ''shttp'',
     ''snews'', ''prospero'', ''rtsp'', ''rtsps'', ''rtspu'', ''rsync'',
     ''svn'', ''svn+ssh'', ''sftp'', ''nfs'', ''git'', ''git+ssh'',
     ''ws'', ''wss'', ''itms-services'']"

definition uses_params :: "string list" where
  "uses_params = ['''', ''ftp'', ''hdl'', ''prospero'', ''http'', ''imap'',
     ''https'', ''shttp'', ''rtsp'', ''rtsps'', ''rtspu'', ''sip'',
     ''sips'', ''mms'', ''sftp'', ''tel'']"

definition scheme_chars :: string where
  "scheme_chars = ascii_lowercase @ ascii_uppercase @ ascii_digits @ ''+-.''"

definition c0_control_or_space :: "char \<Rightarrow> bool" where
  "c0_control_or_space c \<longleftrightarrow> (of_char c :: nat) \<le> 32"

definition unsafe_url_byte :: "char \<Rightarrow> bool" where
  "unsafe_url_byte c \<longleftrightarrow> (of_char c :: nat) \<in> {9, 13, 10}"

definition isascii :: "string \<Rightarrow> bool" where
  "isascii s \<longleftrightarrow> list_all (\<lambda>c. (of_char c :: nat) < 128) s"

definition lower_char :: "char \<Rightarrow> char" where
  "lower_char c = (if c \<in> set ascii_uppercase then char_of ((of_char c :: nat) + 32) else c)"

definition lstrip :: "(char \<Rightarrow> bool) \<Rightarrow> string \<Rightarrow> string" where
  "lstrip p s = dropWhile p s"

definition strip :: "(char \<Rightarrow> bool) \<Rightarrow> string \<Rightarrow> string" where
  "strip p s = rev (dropWhile p (rev (dropWhile p s)))"

text \<open>
  The scheme of \<open>urlsplit\<close>: \<open>i = url.find(':')\<close>, and when \<open>i > 0\<close>, the first
  character is an ASCII letter and \<open>url[:i]\<close> holds scheme characters only, the scheme is
  \<open>url[:i].lower()\<close> and the rest starts after the colon.
\<close>

definition split_scheme :: "string \<Rightarrow> string \<Rightarrow> string \<times> string" where
  "split_scheme url scheme =
     (let pre = takeWhile (\<lambda>c. c \<noteq> CHR '':'') url;
          rest = dropWhile (\<lambda>c. c \<noteq> CHR '':'') url
      in if rest \<noteq> [] \<and> pre \<noteq> []
            \<and> hd pre \<in> set (ascii_lowercase @ ascii_uppercase)
            \<and> list_all (\<lambda>c. c \<in> set scheme_chars) pre
         then (map lower_char pre, tl rest)
         else (scheme, url))"

definition splitnetloc :: "string \<Rightarrow> string \<times> string" where
  "splitnetloc url =
     (takeWhile (\<lambda>c. c \<notin> set ''/?#'') url, dropWhile (\<lambda>c. c \<notin> set ''/?#'') url)"

text \<open>
  \<open>urlsplit\<close> raises \<open>ValueError\<close> (here \<open>None\<close>) on a host part with one bracket but not
  the other. A host part with both brackets is checked as an IPv6 or IPvFuture literal,
  and one that is not ASCII is checked under NFKC normalisation: these two checks of the
  standard library only ever reject, and are the parameter \<open>netloc_ok\<close>.
\<close>

definition netloc_rejected :: "(string \<Rightarrow> bool) \<Rightarrow> string \<Rightarrow> bool" where
  "netloc_rejected netloc_ok netloc \<longleftrightarrow>
     (CHR ''['' \<in> set netloc \<and> CHR '']'' \<notin> set netloc)
   \<or> (CHR '']'' \<in> set netloc \<and> CHR ''['' \<notin> set netloc)
   \<or> (((CHR ''['' \<in> set netloc \<and> CHR '']'' \<in> set netloc) \<or> \<not> isascii netloc)
        \<and> \<not> netloc_ok netloc)"

definition urlsplit ::
  "(string \<Rightarrow> bool) \<Rightarrow> string \<Rightarrow> string \<Rightarrow> (string \<times> string \<times> string \<times> string \<times> string) option" where
  "urlsplit netloc_ok url0 scheme0 =
     (let url1 = filter (\<lambda>c. \<not> unsafe_url_byte c) (lstrip c0_control_or_space url0);
          scheme1 = filter (\<lambda>c. \<not> unsafe_url_byte c) (strip c0_control_or_space scheme0);
          (scheme, url2) = split_scheme url1 scheme1;
          (netloc, url3) = (if take 2 url2 = ''//'' then splitnetloc (drop 2 url2) else ('''', url2));
          (url4, fragment) = (if CHR ''#'' \<in> set url3 then split_first (CHR ''#'') url3 else (url3, ''''));
          (url5, query) = (if CHR ''?'' \<in> set url4 then split_first (CHR ''?'') url4 else (url4, ''''))
      in if netloc_rejected netloc_ok netloc then None
         else Some (scheme, netloc, url5, query, fragment))"

definition splitparams :: "string \<Rightarrow> string \<times> string" where
  "splitparams url =
     (if CHR ''/'' \<in> set url
      then (let seg = rev (takeWhile (\<lambda>c. c \<noteq> CHR ''/'') (rev url));
                front = take (length url - length seg) url
            in if CHR '';'' \<in> set seg
               then (front @ fst (split_first (CHR '';'') seg), snd (split_first (CHR '';'') seg))
               else (url, ''''))
      else split_first (CHR '';'') url)"

definition urlparse ::
  "(string \<Rightarrow> bool) \<Rightarrow> string \<Rightarrow> string
     \<Rightarrow> (string \<times> string \<times> string \<times> string \<times> string \<times> string) option" where
  "urlparse netloc_ok url scheme0 =
     (case urlsplit netloc_ok url scheme0 of
        None \<Rightarrow> None
      | Some (scheme, netloc, path, query, fragment) \<Rightarrow>
          (if scheme \<in> set uses_params \<and> CHR '';'' \<in> set path
           then Some (scheme, netloc, fst (splitparams path), snd (splitparams path), query, fragment)
           else Some (scheme, netloc, path, '''', query, fragment)))"

definition urlunsplit :: "string \<times> string \<times> string \<times> string \<times> string \<Rightarrow> string" where
  "urlunsplit parts =
     (case parts of (scheme, netloc, url, query, fragment) \<Rightarrow>
        (let url1 = (if netloc \<noteq> '''' \<or> (scheme \<noteq> '''' \<and> scheme \<in> set uses_netloc \<and> take 2 url \<noteq> ''//'')
                     then ''//'' @ netloc @ (if url \<noteq> '''' \<and> take 1 url \<noteq> ''/'' then ''/'' @ url else url)
                     else url);
             url2 = (if scheme \<noteq> '''' then scheme @ '':'' @ url1 else url1);
             url3 = (if query \<noteq> '''' then url2 @ ''?'' @ query else url2)
         in if fragment \<noteq> '''' then url3 @ ''#'' @ fragment else url3))"

definition urlunparse :: "string \<times> string \<times> string \<times> string \<times> string \<times> string \<Rightarrow> string" where
  "urlunparse parts =
     (case parts of (scheme, netloc, url, params, query, fragment) \<Rightarrow>
        urlunsplit (scheme, netloc, (if params \<noteq> '''' then url @ '';'' @ params else url), query, fragment))"

text \<open>
  The path resolution of \<open>urljoin\<close>: \<open>segments[1:-1] = filter(None, segments[1:-1])\<close>
  drops the empty segments strictly between the first and the last, and the loop over
  the segments removes \<open>.\<close> and resolves \<open>..\<close>.
\<close>

definition filter_middle :: "string list \<Rightarrow> string list" where
  "filter_middle segments =
     (case segments of
        [] \<Rightarrow> []
      | [x] \<Rightarrow> [x]
      | x # rest \<Rightarrow> x # filter (\<lambda>s. s \<noteq> '''') (butlast rest) @ [last rest])"

fun resolve_segments :: "string list \<Rightarrow> string list \<Rightarrow> string list" where
  "resolve_segments resolved [] = resolved"
| "resolve_segments resolved (seg # segs) =
     (if seg = ''..'' then resolve_segments (butlast resolved) segs
      else if seg = ''.'' then resolve_segments resolved segs
      else resolve_segments (resolved @ [seg]) segs)"

definition urljoin :: "(string \<Rightarrow> bool) \<Rightarrow> string \<Rightarrow> string \<Rightarrow> string option" where
  "urljoin netloc_ok base url =
     (if base = '''' then Some url
      else if url = '''' then Some base
      else
        (case urlparse netloc_ok base '''' of
           None \<Rightarrow> None
         | Some (bscheme, bnetloc, bpath, bparams, bquery, bfragment) \<Rightarrow>
        (case urlparse netloc_ok url bscheme of
           None \<Rightarrow> None
         | Some (scheme, netloc0, path, params, query, fragment) \<Rightarrow>
             if scheme \<noteq> bscheme \<or> scheme \<notin> set uses_relative then Some url
             else if scheme \<in> set uses_netloc \<and> netloc0 \<noteq> ''''
               then Some (urlunparse (scheme, netloc0, path, params, query, fragment))
             else
               (let netloc = (if scheme \<in> set uses_netloc then bnetloc else netloc0)
                in if path = '''' \<and> params = ''''
                   then Some (urlunparse (scheme, netloc, bpath, bparams,
                                (if query = '''' then bquery else query), fragment))
                   else
                     (let base_parts0 = split_on (CHR ''/'') bpath;
                          base_parts = (if last base_parts0 \<noteq> '''' then butlast base_parts0 else base_parts0);
                          segments = (if take 1 path = ''/'' then split_on (CHR ''/'') path
                                      else filter_middle (base_parts @ split_on (CHR ''/'') path));
                          resolved0 = resolve_segments [] segments;
                          resolved_path = (if last segments \<in> {''.'', ''..''} then resolved0 @ [''''] else resolved0);
                          joined = join_with ''/'' resolved_path
                      in Some (urlunparse (scheme, netloc, (if joined = '''' then ''/'' else joined),
                                 params, query, fragment))))))) "


text \<open>\<open>needle in haystack\<close> for two strings: containment as a substring.\<close>

fun str_in :: "string \<Rightarrow> string \<Rightarrow> bool" where
  "str_in needle [] = (needle = [])"
| "str_in needle (c # cs) = (take (length needle) (c # cs) = needle \<or> str_in needle cs)"

text \<open>\<open>str(n)\<close> for an integer: its decimal digits.\<close>

fun str_nat :: "nat \<Rightarrow> string" where
  "str_nat n =
     (if n < 10 then [ascii_digits ! n] else str_nat (n div 10) @ [ascii_digits ! (n mod 10)])"

declare str_nat.simps [simp del]

definition str_int :: "int \<Rightarrow> string" where
  "str_int i = (if i < 0 then CHR ''-'' # str_nat (nat (- i)) else str_nat (nat i))"


section \<open>Exceptions, control flow and the world outside the code\<close>

text \<open>
  The code tells \<open>requests.HTTPError\<close> from every other exception, and \<open>exit(n)\<close> raises
  \<open>SystemExit(n)\<close>; no handler of the code tells any other two exceptions apart
  (\<open>ValueError\<close>, \<open>KeyError\<close>, \<open>TypeError\<close>, \<open>AttributeError\<close>, a connection error of
  \<open>requests\<close>), so they are one constructor.
\<close>

datatype exc = HTTPError | SystemExit int | OtherException

text \<open>The decoded body of a response. \<open>JObj\<close> lists the items of a dict, each key once.\<close>

datatype json =
    JNull
  | JBool bool
  | JNum int
  | JStr string
  | JList "json list"
  | JObj "(string \<times> json) list"

text \<open>
  The objects of the certificate authority's client (module \<open>acme_utils\<close>), with the
  fields the code reads. \<open>order_status\<close> is \<open>order.status\<close>.
\<close>

record challenge =
  ctype :: string
  token :: string
  status :: string

record authorization =
  challenges :: "challenge list"

record order =
  authorizations :: "authorization list"
  order_status :: string

record account =
  key_thumbprint :: string

text \<open>
  A private key as the code uses it: the parameters it was generated with and its PEM
  serialisation (\<open>private_bytes(PEM, TraditionalOpenSSL, NoEncryption).decode("ascii")\<close>).
\<close>

record rsa_key =
  public_exponent :: int
  key_size :: int
  pem :: string

record csr =
  common_name :: string
  subject_alternative_names :: "string list"
  signing_key :: rsa_key
  hash_algorithm :: string

datatype body = NoBody | JsonBody "(string \<times> string) list" | DataBody string

text \<open>
  Every action of the code on something outside it is a request: a call on the Linode
  session \<open>self.http\<close> (method, URL, JSON body), a call of \<open>requests.put\<close>,
  \<open>requests.head\<close> or \<open>requests.delete\<close> (method, URL, body, headers), a call into
  \<open>acme_utils\<close>, \<open>docker_utils\<close> or the \<open>cryptography\<close> package, the reading of the
  account key file, and the closing of a session.
\<close>

datatype request =
    SessionRequest string string body
  | PlainRequest string string body "(string \<times> string) list"
  | GetEnvSecrets string
  | LoadPemPrivateKey string
  | RsaGeneratePrivateKey int int
  | AcmeClientInit string rsa_key
  | NewAccount bool
  | NewOrder "string list"
  | ChallengeRespond challenge
  | ChallengePollUntilNot challenge "string list"
  | OrderFinalize order csr
  | OrderPollUntilNot order "string list"
  | OrderCertificate order
  | SessionClose string

text \<open>
  What comes back: an HTTP response (status code and body, \<open>None\<close> when the body is not
  JSON), a value, or an exception. The status that \<open>poll_until_not\<close> leaves in
  \<open>challenge.status\<close> or \<open>order.status\<close> is the \<open>Text\<close> it answers.
\<close>

datatype reply =
    HttpResponse nat "json option"
  | NoValue
  | Text string
  | AccountHandle account
  | OrderHandle order
  | KeyHandle rsa_key
  | Fails exc

type_synonym event = "request \<times> reply"

text \<open>
  The world answers each request, knowing all that happened before in the run. It also
  holds the host check of \<open>urlsplit\<close> that is taken as a parameter.
\<close>

record world =
  answer :: "event list \<Rightarrow> request \<Rightarrow> reply"
  netloc_ok :: "string \<Rightarrow> bool"

text \<open>
  A statement ends normally with a value, by \<open>return\<close>, or by an exception. A piece of
  code maps the events before it to the way it ends and the events it adds.
\<close>

datatype ('a, 'r) completion = Normal 'a | Return 'r | Raise exc

type_synonym ('a, 'r) prog = "event list \<Rightarrow> ('a, 'r) completion \<times> event list"

definition pure :: "'a \<Rightarrow> ('a, 'r) prog" where
  "pure x h = (Normal x, [])"

definition ret :: "'r \<Rightarrow> ('a, 'r) prog" where
  "ret r h = (Return r, [])"

definition raise :: "exc \<Rightarrow> ('a, 'r) prog" where
  "raise e h = (Raise e, [])"

definition bind :: "('a, 'r) prog \<Rightarrow> ('a \<Rightarrow> ('b, 'r) prog) \<Rightarrow> ('b, 'r) prog" where
  "bind m f h =
     (case m h of
        (Normal x, ev) \<Rightarrow> (case f x (h @ ev) of (c, ev') \<Rightarrow> (c, ev @ ev'))
      | (Return r, ev) \<Rightarrow> (Return r, ev)
      | (Raise e, ev) \<Rightarrow> (Raise e, ev))"

text \<open>\<open>try: m except requests.HTTPError: handler\<close>.\<close>

definition try_except_http :: "('a, 'r) prog \<Rightarrow> ('a, 'r) prog \<Rightarrow> ('a, 'r) prog" where
  "try_except_http m handler h =
     (case m h of
        (Raise e, ev) \<Rightarrow>
          (if e = HTTPError then (case handler (h @ ev) of (c, ev') \<Rightarrow> (c, ev @ ev'))
           else (Raise e, ev))
      | (c, ev) \<Rightarrow> (c, ev))"

text \<open>
  \<open>try: m finally: fin\<close>. The \<open>finally\<close> block runs however \<open>m\<close> ends; the statement
  ends as \<open>m\<close> did, unless the block itself returns or raises.
\<close>

definition try_finally :: "('a, 'r) prog \<Rightarrow> (unit, 'r) prog \<Rightarrow> ('a, 'r) prog" where
  "try_finally m fin h =
     (case m h of (c, ev) \<Rightarrow>
        (case fin (h @ ev) of
           (Normal u, ev') \<Rightarrow> (c, ev @ ev')
         | (Return r, ev') \<Rightarrow> (Return r, ev @ ev')
         | (Raise e, ev') \<Rightarrow> (Raise e, ev @ ev')))"

text \<open>A function call: what the body returns is the value of the call.\<close>

definition call :: "('r, 'r) prog \<Rightarrow> ('r, 'q) prog" where
  "call m h =
     (case m h of
        (Normal r, ev) \<Rightarrow> (Normal r, ev)
      | (Return r, ev) \<Rightarrow> (Normal r, ev)
      | (Raise e, ev) \<Rightarrow> (Raise e, ev))"

definition perform :: "world \<Rightarrow> request \<Rightarrow> (reply, 'r) prog" where
  "perform w req h = (Normal (answer w h req), [(req, answer w h req)])"


section \<open>The HTTP layer: requests and responses\<close>

definition http_reply :: "reply \<Rightarrow> (nat \<times> json option, 'r) prog" where
  "http_reply r =
     (case r of
        HttpResponse status_code content \<Rightarrow> pure (status_code, content)
      | Fails e \<Rightarrow> raise e
      | _ \<Rightarrow> raise OtherException)"

definition session_request :: "world \<Rightarrow> string \<Rightarrow> string \<Rightarrow> body \<Rightarrow> (nat \<times> json option, 'r) prog" where
  "session_request w method url content = bind (perform w (SessionRequest method url content)) http_reply"

text \<open>
  \<open>requests.put(url, ...)\<close> and its kin. The URL comes out of a JSON body: \<open>requests\<close>
  sends nothing and raises (\<open>MissingSchema\<close>, \<open>InvalidSchema\<close>) unless it is a string.
\<close>

definition plain_request ::
  "world \<Rightarrow> string \<Rightarrow> json \<Rightarrow> body \<Rightarrow> (string \<times> string) list \<Rightarrow> (nat \<times> json option, 'r) prog" where
  "plain_request w method url content headers =
     (case url of
        JStr u \<Rightarrow> bind (perform w (PlainRequest method u content headers)) http_reply
      | _ \<Rightarrow> raise OtherException)"

definition raise_for_status :: "nat \<times> json option \<Rightarrow> (unit, 'r) prog" where
  "raise_for_status r = (if 400 \<le> fst r \<and> fst r < 600 then raise HTTPError else pure ())"

text \<open>\<open>r.json()\<close> raises when the body is not JSON.\<close>

definition response_json :: "nat \<times> json option \<Rightarrow> (json, 'r) prog" where
  "response_json r = (case snd r of None \<Rightarrow> raise OtherException | Some j \<Rightarrow> pure j)"

text \<open>\<open>value[key]\<close> for a string key: \<open>KeyError\<close> on a dict without it, \<open>TypeError\<close> on anything else.\<close>

definition subscript :: "json \<Rightarrow> string \<Rightarrow> (json, 'r) prog" where
  "subscript v k =
     (case v of
        JObj items \<Rightarrow> (case map_of items k of None \<Rightarrow> raise OtherException | Some x \<Rightarrow> pure x)
      | _ \<Rightarrow> raise OtherException)"

section \<open>The Linode object storage client (\<open>linode_utils.py\<close>)\<close>

text \<open>
  The session \<open>self.http\<close> carries the bearer token and the headers set on it; the
  requests of the client differ by method, URL and body only.
\<close>

record LinodeObjectStorageClient =
  bearer_token :: string
  linode_api :: string
  user_agent :: string

text \<open>
  The second argument of each \<open>urljoin\<close>. The f-strings are broken by a backslash at the
  end of the line, inside the literal: the sixteen blanks that indent the next line are
  part of the string.
\<close>

definition buckets_ref :: string where
  "buckets_ref = ''v4/object-storage/buckets/''"

definition object_url_ref :: "string \<Rightarrow> string \<Rightarrow> string" where
  "object_url_ref cluster bucket =
     ''v4/object-storage/buckets/'' @ quote cluster @ ''/'' @ quote bucket
       @ ''                /object-url''"

definition object_acl_ref :: "string \<Rightarrow> string \<Rightarrow> string" where
  "object_acl_ref cluster bucket =
     ''https://api.linode.com/v4/object-storage/buckets/'' @ quote cluster
       @ ''                /'' @ quote bucket @ ''/object-acl''"

definition ssl_ref :: "string \<Rightarrow> string \<Rightarrow> string" where
  "ssl_ref cluster bucket =
     ''https://api.linode.com/v4/object-storage/buckets/'' @ quote cluster
       @ ''                /'' @ quote bucket @ ''/ssl''"

definition api_url :: "world \<Rightarrow> LinodeObjectStorageClient \<Rightarrow> string \<Rightarrow> (string, 'r) prog" where
  "api_url w self ref =
     (case urljoin (netloc_ok w) (linode_api self) ref of
        None \<Rightarrow> raise OtherException
      | Some url \<Rightarrow> pure url)"

definition buckets :: "world \<Rightarrow> LinodeObjectStorageClient \<Rightarrow> (json, 'r) prog" where
  "buckets w self =
     bind (api_url w self buckets_ref) (\<lambda>url.
     bind (session_request w ''GET'' url NoBody) (\<lambda>r.
     bind (raise_for_status r) (\<lambda>_.
     bind (response_json r) (\<lambda>response.
     subscript response ''data''))))"

definition create_object_url ::
  "world \<Rightarrow> LinodeObjectStorageClient \<Rightarrow> string \<Rightarrow> string \<Rightarrow> string \<Rightarrow> string
     \<Rightarrow> string option \<Rightarrow> int option \<Rightarrow> (json, 'r) prog" where
  "create_object_url w self cluster bucket name method content_type expires_in =
     (let data = [(''name'', name), (''method'', method)]
            @ (case content_type of
                 None \<Rightarrow> []
               | Some ct \<Rightarrow> if ct = '''' then [] else [(''content_type'', ct)])
            @ (case expires_in of
                 None \<Rightarrow> []
               | Some n \<Rightarrow> if n = 0 then [] else [(''expires_in'', str_int n)])
      in bind (api_url w self (object_url_ref cluster bucket)) (\<lambda>url.
         bind (session_request w ''POST'' url (JsonBody data)) (\<lambda>r.
         bind (raise_for_status r) (\<lambda>_.
         bind (response_json r) (\<lambda>response.
         subscript response ''url'')))))"

definition update_object_acl ::
  "world \<Rightarrow> LinodeObjectStorageClient \<Rightarrow> string \<Rightarrow> string \<Rightarrow> string \<Rightarrow> string \<Rightarrow> (json, 'r) prog" where
  "update_object_acl w self cluster bucket name acl =
     (let data = [(''name'', name), (''acl'', acl)]
      in bind (api_url w self (object_acl_ref cluster bucket)) (\<lambda>url.
         bind (session_request w ''PUT'' url (JsonBody data)) (\<lambda>r.
         bind (raise_for_status r) (\<lambda>_.
         response_json r))))"

text \<open>
  \<open>"ssl" not in response\<close> is a key test on a dict, a membership test on a list, a
  substring test on a string, and a \<open>TypeError\<close> on anything else. When \<open>"ssl"\<close> is in
  the response, \<open>response.key("ssl")\<close> raises \<open>AttributeError\<close>: no JSON value has a
  method \<open>key\<close>.
\<close>

definition check_ssl_exists :: "world \<Rightarrow> LinodeObjectStorageClient \<Rightarrow> string \<Rightarrow> string \<Rightarrow> (bool, 'q) prog" where
  "check_ssl_exists w self cluster bucket =
     call (
       bind (api_url w self (ssl_ref cluster bucket)) (\<lambda>url.
       bind (session_request w ''GET'' url NoBody) (\<lambda>r.
       bind (raise_for_status r) (\<lambda>_.
       bind (response_json r) (\<lambda>response.
       bind (case response of
               JObj items \<Rightarrow> pure (''ssl'' \<in> fst ` set items)
             | JList xs \<Rightarrow> pure (JStr ''ssl'' \<in> set xs)
             | JStr s \<Rightarrow> pure (str_in ''ssl'' s)
             | _ \<Rightarrow> raise OtherException) (\<lambda>has_ssl.
       if \<not> has_ssl then ret False
       else raise OtherException))))))"

definition upload_ssl ::
  "world \<Rightarrow> LinodeObjectStorageClient \<Rightarrow> string \<Rightarrow> string \<Rightarrow> string \<Rightarrow> string \<Rightarrow> (unit, 'r) prog" where
  "upload_ssl w self cluster bucket certificate private_key =
     (let data = [(''certificate'', certificate), (''private_key'', private_key)]
      in bind (api_url w self (ssl_ref cluster bucket)) (\<lambda>url.
         bind (session_request w ''POST'' url (JsonBody data)) (\<lambda>r.
         raise_for_status r)))"

definition delete_ssl :: "world \<Rightarrow> LinodeObjectStorageClient \<Rightarrow> string \<Rightarrow> string \<Rightarrow> (unit, 'r) prog" where
  "delete_ssl w self cluster bucket =
     bind (api_url w self (ssl_ref cluster bucket)) (\<lambda>url.
     bind (session_request w ''DELETE'' url NoBody) (\<lambda>r.
     raise_for_status r))"


section \<open>Certificate provisioning (\<open>s3_ssl_utils.py\<close>)\<close>

text \<open>
  How the reply to a call outside the repository is read. A reply of a kind the call
  cannot give counts as the call raising.
\<close>

definition key_reply :: "reply \<Rightarrow> (rsa_key, 'r) prog" where
  "key_reply r = (case r of KeyHandle k \<Rightarrow> pure k | Fails e \<Rightarrow> raise e | _ \<Rightarrow> raise OtherException)"

definition account_reply :: "reply \<Rightarrow> (account option, 'r) prog" where
  "account_reply r =
     (case r of
        AccountHandle a \<Rightarrow> pure (Some a)
      | NoValue \<Rightarrow> pure None
      | Fails e \<Rightarrow> raise e
      | _ \<Rightarrow> raise OtherException)"

definition order_reply :: "reply \<Rightarrow> (order, 'r) prog" where
  "order_reply r = (case r of OrderHandle ord \<Rightarrow> pure ord | Fails e \<Rightarrow> raise e | _ \<Rightarrow> raise OtherException)"

definition text_reply :: "reply \<Rightarrow> (string, 'r) prog" where
  "text_reply r = (case r of Text s \<Rightarrow> pure s | Fails e \<Rightarrow> raise e | _ \<Rightarrow> raise OtherException)"

definition optional_text_reply :: "reply \<Rightarrow> (string option, 'r) prog" where
  "optional_text_reply r =
     (case r of
        Text s \<Rightarrow> pure (Some s)
      | NoValue \<Rightarrow> pure None
      | Fails e \<Rightarrow> raise e
      | _ \<Rightarrow> raise OtherException)"

definition no_reply :: "reply \<Rightarrow> (unit, 'r) prog" where
  "no_reply r = (case r of Fails e \<Rightarrow> raise e | _ \<Rightarrow> pure ())"

definition generate_private_key :: "world \<Rightarrow> int \<Rightarrow> (rsa_key, 'r) prog" where
  "generate_private_key w s3_key_size =
     bind (perform w (RsaGeneratePrivateKey 65537 s3_key_size)) key_reply"

definition generate_csr :: "string \<Rightarrow> rsa_key \<Rightarrow> csr" where
  "generate_csr s3_domain private_key =
     \<lparr>common_name = s3_domain,
      subject_alternative_names = [s3_domain],
      signing_key = private_key,
      hash_algorithm = ''SHA256''\<rparr>"

definition registering_acme_account :: "world \<Rightarrow> bool \<Rightarrow> (int + account, 'q) prog" where
  "registering_acme_account w acme_agree_tos =
     call (
       bind (try_except_http
               (bind (perform w (NewAccount acme_agree_tos)) account_reply)
               (ret (Inl 1))) (\<lambda>account.
       case account of
         None \<Rightarrow> ret (Inl 1)
       | Some a \<Rightarrow> ret (Inr a)))"

text \<open>
  The \<open>for ... else\<close> over the challenges: the loop stops at the first challenge with
  \<open>challenge.type in acme_supported_challenges\<close>; \<open>acme_supported_challenges\<close> is a
  \<open>str\<close>, so the test is containment of the type in that string.
\<close>

fun select_challenge :: "string \<Rightarrow> challenge list \<Rightarrow> challenge option" where
  "select_challenge acme_supported_challenges [] = None"
| "select_challenge acme_supported_challenges (c # cs) =
     (if str_in (ctype c) acme_supported_challenges then Some c
      else select_challenge acme_supported_challenges cs)"

definition challenge_obj_name :: "challenge \<Rightarrow> string" where
  "challenge_obj_name c = ''/.well-known/acme-challenge/'' @ quote (token c)"

text \<open>The body of the loop over \<open>order.authorizations\<close>.\<close>

definition order_auth_authorization ::
  "world \<Rightarrow> string \<Rightarrow> string \<Rightarrow> string \<Rightarrow> string \<Rightarrow> account \<Rightarrow> LinodeObjectStorageClient
     \<Rightarrow> authorization \<Rightarrow> (unit, int) prog" where
  "order_auth_authorization w s3_domain s3_cluster s3_label acme_supported_challenges account
       object_storage authorization =
     (case select_challenge acme_supported_challenges (challenges authorization) of
        None \<Rightarrow> ret 1
      | Some challenge \<Rightarrow>
          (let obj_name = challenge_obj_name challenge;
               data = token challenge @ ''.'' @ key_thumbprint account
           in
           bind (try_except_http
                   (bind (create_object_url w object_storage s3_cluster s3_label obj_name
                            ''PUT'' (Some ''text/plain'') (Some 360)) (\<lambda>put_url.
                    bind (plain_request w ''PUT'' put_url (DataBody data)
                            [(''Content-Type'', ''text/plain'')]) (\<lambda>r.
                    raise_for_status r)))
                   (ret 1)) (\<lambda>_.
           try_finally
             (bind (update_object_acl w object_storage s3_cluster s3_label obj_name
                      ''public-read'') (\<lambda>_.
              bind (try_except_http
                      (bind (plain_request w ''HEAD''
                               (JStr (urlunsplit (''http'', s3_domain, obj_name, '''', '''')))
                               NoBody []) (\<lambda>r.
                       raise_for_status r))
                      (ret 1)) (\<lambda>_.
              bind (try_except_http
                      (bind (bind (perform w (ChallengeRespond challenge)) no_reply) (\<lambda>_.
                       bind (perform w (ChallengePollUntilNot challenge [''processing'', ''pending'']))
                         text_reply))
                      (ret 1)) (\<lambda>polled.
              if status (challenge\<lparr>status := polled\<rparr>) \<noteq> ''valid'' then ret 1 else pure ()))))
             (try_except_http
                (bind (create_object_url w object_storage s3_cluster s3_label obj_name
                         ''DELETE'' None (Some 360)) (\<lambda>delete_url.
                 bind (plain_request w ''DELETE'' delete_url NoBody []) (\<lambda>r.
                 raise_for_status r)))
                (pure ())))))"

fun order_auth_loop ::
  "world \<Rightarrow> string \<Rightarrow> string \<Rightarrow> string \<Rightarrow> string \<Rightarrow> account \<Rightarrow> LinodeObjectStorageClient
     \<Rightarrow> authorization list \<Rightarrow> (unit, int) prog" where
  "order_auth_loop w s3_domain s3_cluster s3_label acme_supported_challenges account
       object_storage [] = pure ()"
| "order_auth_loop w s3_domain s3_cluster s3_label acme_supported_challenges account
       object_storage (authorization # rest) =
     bind (order_auth_authorization w s3_domain s3_cluster s3_label acme_supported_challenges
             account object_storage authorization) (\<lambda>_.
     order_auth_loop w s3_domain s3_cluster s3_label acme_supported_challenges account
       object_storage rest)"

definition order_auth ::
  "world \<Rightarrow> order \<Rightarrow> string \<Rightarrow> string \<Rightarrow> string \<Rightarrow> string \<Rightarrow> account \<Rightarrow> LinodeObjectStorageClient
     \<Rightarrow> (int, 'q) prog" where
  "order_auth w ord s3_domain s3_cluster s3_label acme_supported_challenges account object_storage =
     call (
       bind (order_auth_loop w s3_domain s3_cluster s3_label acme_supported_challenges account
               object_storage (authorizations ord)) (\<lambda>_.
       ret 0))"

definition creating_acme_order ::
  "world \<Rightarrow> string \<Rightarrow> string \<Rightarrow> string \<Rightarrow> string \<Rightarrow> account \<Rightarrow> csr \<Rightarrow> LinodeObjectStorageClient
     \<Rightarrow> (int + string, 'q) prog" where
  "creating_acme_order w s3_domain s3_cluster s3_label acme_supported_challenges account csr
       object_storage =
     call (
       let domains = [s3_domain] in
       bind (try_except_http
               (bind (perform w (NewOrder domains)) order_reply)
               (ret (Inl 1))) (\<lambda>ord.
       bind (order_auth w ord s3_domain s3_cluster s3_label acme_supported_challenges account
               object_storage) (\<lambda>order_auth_status.
       if order_auth_status = 1 then ret (Inl 1)
       else
       bind (try_except_http
               (bind (bind (perform w (OrderFinalize ord csr)) no_reply) (\<lambda>_.
                bind (perform w (OrderPollUntilNot ord [''processing''])) text_reply))
               (ret (Inl 1))) (\<lambda>polled.
       let ord = ord\<lparr>order_status := polled\<rparr> in
       if order_status ord \<noteq> ''valid'' then ret (Inl 1)
       else
       bind (try_except_http
               (bind (perform w (OrderCertificate ord)) text_reply)
               (ret (Inl 1))) (\<lambda>certificate.
       ret (Inr certificate))))))"

definition update_certs ::
  "world \<Rightarrow> LinodeObjectStorageClient \<Rightarrow> string \<Rightarrow> string \<Rightarrow> rsa_key \<Rightarrow> string \<Rightarrow> (int, 'q) prog" where
  "update_certs w object_storage s3_cluster s3_label private_key certificate =
     call (
       bind (try_except_http
               (delete_ssl w object_storage s3_cluster s3_label)
               (ret 1)) (\<lambda>_.
       let private_key_pem = pem private_key in
       bind (try_except_http
               (upload_ssl w object_storage s3_cluster s3_label certificate private_key_pem)
               (ret 1)) (\<lambda>_.
       ret 0)))"

text \<open>
  The list comprehension of \<open>set_s3_ssl\<close> over \<open>object_storage.buckets()\<close>. Iterating
  a list gives its elements, a dict its keys, a string its characters, anything else a
  \<open>TypeError\<close>; \<open>bucket["cluster"]\<close> needs a dict with that key; \<open>and\<close> reads
  \<open>bucket["label"]\<close> only when the cluster is the wanted one.
\<close>

definition iterate :: "json \<Rightarrow> (json list, 'r) prog" where
  "iterate v =
     (case v of
        JList xs \<Rightarrow> pure xs
      | JObj items \<Rightarrow> pure (map (\<lambda>item. JStr (fst item)) items)
      | JStr s \<Rightarrow> pure (map (\<lambda>c. JStr [c]) s)
      | _ \<Rightarrow> raise OtherException)"

fun matching_buckets :: "string \<Rightarrow> string \<Rightarrow> json list \<Rightarrow> (json list, 'r) prog" where
  "matching_buckets s3_cluster s3_label [] = pure []"
| "matching_buckets s3_cluster s3_label (bucket # rest) =
     bind (subscript bucket ''cluster'') (\<lambda>cluster.
     bind (if cluster = JStr s3_cluster
           then bind (subscript bucket ''label'') (\<lambda>label. pure (label = JStr s3_label))
           else pure False) (\<lambda>keep.
     bind (matching_buckets s3_cluster s3_label rest) (\<lambda>others.
     pure (if keep then bucket # others else others))))"

text \<open>
  Calls into modules of the repository that are not among its sources, and into the
  file system.
\<close>

definition get_env_secrets :: "world \<Rightarrow> string \<Rightarrow> (string option, 'r) prog" where
  "get_env_secrets w name = bind (perform w (GetEnvSecrets name)) optional_text_reply"

definition load_pem_private_key :: "world \<Rightarrow> string \<Rightarrow> (rsa_key, 'r) prog" where
  "load_pem_private_key w filename = bind (perform w (LoadPemPrivateKey filename)) key_reply"

definition acme_client_init :: "world \<Rightarrow> string \<Rightarrow> rsa_key \<Rightarrow> (unit, 'r) prog" where
  "acme_client_init w s3_dir_url account_key =
     bind (perform w (AcmeClientInit s3_dir_url account_key)) no_reply"

text \<open>
  Modelled from the spec: \<open>AcmeClient.__exit__\<close> of \<open>acme_utils\<close>. The spec has each
  session closed at the end of the run (scoped acquisition and release), as
  \<open>LinodeObjectStorageClient.__exit__\<close> does with \<open>self.http.close()\<close>: closing is
  local, does not raise and does not swallow an exception that passes through.
\<close>

definition session_close :: "string \<Rightarrow> (unit, 'r) prog" where
  "session_close name h = (Normal (), [(SessionClose name, NoValue)])"

definition set_s3_ssl ::
  "world \<Rightarrow> string \<Rightarrow> string \<Rightarrow> string \<Rightarrow> string \<Rightarrow> int \<Rightarrow> string \<Rightarrow> string \<Rightarrow> string \<Rightarrow> string
     \<Rightarrow> bool \<Rightarrow> string \<Rightarrow> (int, 'q) prog" where
  "set_s3_ssl w s3_domain s3_cluster s3_label s3_account_key_filename s3_key_size s3_linode_api
       s3_dir_url s3_user_agent acme_supported_challenges acme_agree_tos
       s3_secret_access_key_filename =
     call (
       bind (get_env_secrets w s3_secret_access_key_filename) (\<lambda>bucket_access_key.
       if bucket_access_key = None \<or> bucket_access_key = Some '''' then ret 1
       else
       bind (load_pem_private_key w s3_account_key_filename) (\<lambda>account_key.
       bind (generate_private_key w s3_key_size) (\<lambda>private_key.
       let csr = generate_csr s3_domain private_key;
           object_storage = \<lparr>bearer_token = the bucket_access_key, linode_api = s3_linode_api,
                              user_agent = s3_user_agent\<rparr>
       in
       bind (try_finally
               (bind (acme_client_init w s3_dir_url account_key) (\<lambda>_.
                try_finally
                  (bind (buckets w object_storage) (\<lambda>listed.
                   bind (iterate listed) (\<lambda>listed.
                   bind (matching_buckets s3_cluster s3_label listed) (\<lambda>buckets.
                   if buckets = [] then ret 1
                   else
                   bind (registering_acme_account w acme_agree_tos) (\<lambda>account.
                   case account of
                     Inl code \<Rightarrow> raise (SystemExit code)
                   | Inr account \<Rightarrow>
                   bind (creating_acme_order w s3_domain s3_cluster s3_label
                           acme_supported_challenges account csr object_storage) (\<lambda>certificate.
                   case certificate of
                     Inl code \<Rightarrow> raise (SystemExit code)
                   | Inr certificate \<Rightarrow>
                   bind (update_certs w object_storage s3_cluster s3_label private_key
                           certificate) (\<lambda>_.
                   pure ())))))))
                  (session_close ''acme_client'')))
               (session_close ''object_storage'')) (\<lambda>_.
       ret 0)))))"

definition check_s3_ssl_is_set :: "world \<Rightarrow> string \<Rightarrow> string \<Rightarrow> string \<Rightarrow> string \<Rightarrow> (bool, 'q) prog" where
  "check_s3_ssl_is_set w s3_cluster s3_bucket s3_linode_api s3_secret_access_key_filename =
     call (
       bind (get_env_secrets w s3_secret_access_key_filename) (\<lambda>bucket_access_key.
       if bucket_access_key = None \<or> bucket_access_key = Some '''' then ret False
       else
       let object_storage = \<lparr>bearer_token = the bucket_access_key, linode_api = s3_linode_api,
                               user_agent = ''''\<rparr>
       in
       bind (check_ssl_exists w object_storage s3_cluster s3_bucket) (\<lambda>found.
       ret found)))"


definition status_check :: "reply \<Rightarrow> exc option" where
  "status_check r =
     (case r of
        HttpResponse status_code content \<Rightarrow> if 400 \<le> status_code \<and> status_code < 600 then Some HTTPError else None
      | Fails e \<Rightarrow> Some e
      | _ \<Rightarrow> Some OtherException)"

definition json_of_reply :: "reply \<Rightarrow> exc + json" where
  "json_of_reply r =
     (case status_check r of
        Some e \<Rightarrow> Inl e
      | None \<Rightarrow> (case r of HttpResponse status_code (Some j) \<Rightarrow> Inr j | _ \<Rightarrow> Inl OtherException))"

definition field_of_reply :: "string \<Rightarrow> reply \<Rightarrow> exc + json" where
  "field_of_reply k r =
     (case json_of_reply r of
        Inl e \<Rightarrow> Inl e
      | Inr (JObj items) \<Rightarrow> (case map_of items k of None \<Rightarrow> Inl OtherException | Some v \<Rightarrow> Inr v)
      | Inr _ \<Rightarrow> Inl OtherException)"

definition text_of_reply :: "reply \<Rightarrow> exc + string" where
  "text_of_reply r = (case r of Text s \<Rightarrow> Inr s | Fails e \<Rightarrow> Inl e | _ \<Rightarrow> Inl OtherException)"

definition failure_of_reply :: "reply \<Rightarrow> exc option" where
  "failure_of_reply r = (case r of Fails e \<Rightarrow> Some e | _ \<Rightarrow> None)"

definition caught :: "'r \<Rightarrow> exc \<Rightarrow> ('a, 'r) completion" where
  "caught r e = (if e = HTTPError then Return r else Raise e)"

definition object_url_data :: "string \<Rightarrow> string \<Rightarrow> string option \<Rightarrow> int option \<Rightarrow> (string \<times> string) list" where
  "object_url_data name method content_type expires_in =
     [(''name'', name), (''method'', method)]
            @ (case content_type of
                 None \<Rightarrow> []
               | Some ct \<Rightarrow> if ct = '''' then [] else [(''content_type'', ct)])
            @ (case expires_in of
                 None \<Rightarrow> []
               | Some n \<Rightarrow> if n = 0 then [] else [(''expires_in'', str_int n)])"

definition put_url_request :: "string \<Rightarrow> string \<Rightarrow> request" where
  "put_url_request url name =
     SessionRequest ''POST'' url (JsonBody (object_url_data name ''PUT'' (Some ''text/plain'') (Some 360)))"

definition delete_url_request :: "string \<Rightarrow> string \<Rightarrow> request" where
  "delete_url_request url name =
     SessionRequest ''POST'' url (JsonBody (object_url_data name ''DELETE'' None (Some 360)))"

definition put_request :: "string \<Rightarrow> string \<Rightarrow> request" where
  "put_request u data = PlainRequest ''PUT'' u (DataBody data) [(''Content-Type'', ''text/plain'')]"

definition acl_request :: "string \<Rightarrow> string \<Rightarrow> request" where
  "acl_request url name = SessionRequest ''PUT'' url (JsonBody [(''name'', name), (''acl'', ''public-read'')])"

definition head_request :: "string \<Rightarrow> string \<Rightarrow> request" where
  "head_request s3_domain name = PlainRequest ''HEAD'' (urlunsplit (''http'', s3_domain, name, '''', '''')) NoBody []"

definition poll_request :: "challenge \<Rightarrow> request" where
  "poll_request ch = ChallengePollUntilNot ch [''processing'', ''pending'']"

(* code fragments *)

definition publish_steps ::
  "world \<Rightarrow> LinodeObjectStorageClient \<Rightarrow> string \<Rightarrow> string \<Rightarrow> string \<Rightarrow> string \<Rightarrow> (unit, int) prog" where
  "publish_steps w os cl l name data =
     try_except_http
       (bind (create_object_url w os cl l name ''PUT'' (Some ''text/plain'') (Some 360)) (\<lambda>put_url.
        bind (plain_request w ''PUT'' put_url (DataBody data) [(''Content-Type'', ''text/plain'')]) (\<lambda>r.
        raise_for_status r)))
       (ret 1)"

definition validate_steps ::
  "world \<Rightarrow> string \<Rightarrow> string \<Rightarrow> string \<Rightarrow> LinodeObjectStorageClient \<Rightarrow> challenge \<Rightarrow> (unit, int) prog" where
  "validate_steps w s3_domain cl l os ch =
     bind (update_object_acl w os cl l (challenge_obj_name ch) ''public-read'') (\<lambda>_.
     bind (try_except_http
             (bind (plain_request w ''HEAD''
                      (JStr (urlunsplit (''http'', s3_domain, challenge_obj_name ch, '''', '''')))
                      NoBody []) (\<lambda>r.
              raise_for_status r))
             (ret 1)) (\<lambda>_.
     bind (try_except_http
             (bind (bind (perform w (ChallengeRespond ch)) no_reply) (\<lambda>_.
              bind (perform w (ChallengePollUntilNot ch [''processing'', ''pending'']))
                text_reply))
             (ret 1)) (\<lambda>polled.
     if status (ch\<lparr>status := polled\<rparr>) \<noteq> ''valid'' then ret 1 else pure ())))"

definition cleanup_steps ::
  "world \<Rightarrow> LinodeObjectStorageClient \<Rightarrow> string \<Rightarrow> string \<Rightarrow> string \<Rightarrow> (unit, int) prog" where
  "cleanup_steps w os cl l name =
     try_except_http
       (bind (create_object_url w os cl l name ''DELETE'' None (Some 360)) (\<lambda>delete_url.
        bind (plain_request w ''DELETE'' delete_url NoBody []) (\<lambda>r.
        raise_for_status r)))
       (pure ())"

inductive publish_run :: "string \<Rightarrow> string \<Rightarrow> string option \<Rightarrow> (unit, int) completion \<Rightarrow> event list \<Rightarrow> bool"
  for name :: string and data :: string where
  publish_no_url: "publish_run name data None (Raise OtherException) []"
| publish_not_granted:
    "field_of_reply ''url'' r1 = Inl e \<Longrightarrow> c = caught 1 e \<Longrightarrow>
     publish_run name data (Some url) c [(put_url_request url name, r1)]"
| publish_no_string:
    "field_of_reply ''url'' r1 = Inr v \<Longrightarrow> \<forall>u. v \<noteq> JStr u \<Longrightarrow>
     publish_run name data (Some url) (Raise OtherException) [(put_url_request url name, r1)]"
| publish_put_failed:
    "field_of_reply ''url'' r1 = Inr (JStr u) \<Longrightarrow> status_check r2 = Some e \<Longrightarrow> c = caught 1 e \<Longrightarrow>
     publish_run name data (Some url) c [(put_url_request url name, r1), (put_request u data, r2)]"
| published:
    "field_of_reply ''url'' r1 = Inr (JStr u) \<Longrightarrow> status_check r2 = None \<Longrightarrow>
     publish_run name data (Some url) (Normal ()) [(put_url_request url name, r1), (put_request u data, r2)]"

inductive cleanup_run :: "string \<Rightarrow> string option \<Rightarrow> (unit, int) completion \<Rightarrow> event list \<Rightarrow> bool"
  for name :: string where
  cleanup_no_url: "cleanup_run name None (Raise OtherException) []"
| cleanup_not_granted:
    "field_of_reply ''url'' r1 = Inl e \<Longrightarrow> c = (if e = HTTPError then Normal () else Raise e) \<Longrightarrow>
     cleanup_run name (Some url) c [(delete_url_request url name, r1)]"
| cleanup_no_string:
    "field_of_reply ''url'' r1 = Inr v \<Longrightarrow> \<forall>u. v \<noteq> JStr u \<Longrightarrow>
     cleanup_run name (Some url) (Raise OtherException) [(delete_url_request url name, r1)]"
| cleanup_delete_failed:
    "field_of_reply ''url'' r1 = Inr (JStr u) \<Longrightarrow> status_check r2 = Some e \<Longrightarrow>
     c = (if e = HTTPError then Normal () else Raise e) \<Longrightarrow>
     cleanup_run name (Some url) c
       [(delete_url_request url name, r1), (PlainRequest ''DELETE'' u NoBody [], r2)]"
| cleanup_deleted:
    "field_of_reply ''url'' r1 = Inr (JStr u) \<Longrightarrow> status_check r2 = None \<Longrightarrow>
     cleanup_run name (Some url) (Normal ())
       [(delete_url_request url name, r1), (PlainRequest ''DELETE'' u NoBody [], r2)]"

inductive validate_run :: "string \<Rightarrow> challenge \<Rightarrow> (unit, int) completion \<Rightarrow> event list \<Rightarrow> bool"
  for s3_domain :: string and ch :: challenge where
  acl_no_url: "validate_run s3_domain ch (Raise OtherException) []"
| acl_failed:
    "json_of_reply r1 = Inl e \<Longrightarrow>
     validate_run s3_domain ch (Raise e) [(acl_request url (challenge_obj_name ch), r1)]"
| head_failed:
    "json_of_reply r1 = Inr j \<Longrightarrow> status_check r2 = Some e \<Longrightarrow> c = caught 1 e \<Longrightarrow>
     validate_run s3_domain ch c
       [(acl_request url (challenge_obj_name ch), r1), (head_request s3_domain (challenge_obj_name ch), r2)]"
| respond_failed:
    "json_of_reply r1 = Inr j \<Longrightarrow> status_check r2 = None \<Longrightarrow> c = caught 1 e \<Longrightarrow>
     validate_run s3_domain ch c
       [(acl_request url (challenge_obj_name ch), r1), (head_request s3_domain (challenge_obj_name ch), r2),
        (ChallengeRespond ch, Fails e)]"
| poll_failed:
    "json_of_reply r1 = Inr j \<Longrightarrow> status_check r2 = None \<Longrightarrow> \<forall>e. r3 \<noteq> Fails e \<Longrightarrow>
     text_of_reply r4 = Inl e \<Longrightarrow> c = caught 1 e \<Longrightarrow>
     validate_run s3_domain ch c
       [(acl_request url (challenge_obj_name ch), r1), (head_request s3_domain (challenge_obj_name ch), r2),
        (ChallengeRespond ch, r3), (poll_request ch, r4)]"
| polled:
    "json_of_reply r1 = Inr j \<Longrightarrow> status_check r2 = None \<Longrightarrow> \<forall>e. r3 \<noteq> Fails e \<Longrightarrow>
     c = (if polled \<noteq> ''valid'' then Return 1 else Normal ()) \<Longrightarrow>
     validate_run s3_domain ch c
       [(acl_request url (challenge_obj_name ch), r1), (head_request s3_domain (challenge_obj_name ch), r2),
        (ChallengeRespond ch, r3), (poll_request ch, Text polled)]"

text \<open>How a \<open>finally\<close> block changes the way the statement ends.\<close>

definition after_finally :: "('a, 'r) completion \<Rightarrow> (unit, 'r) completion \<Rightarrow> ('a, 'r) completion" where
  "after_finally c1 c2 = (case c2 of Normal u \<Rightarrow> c1 | Return r \<Rightarrow> Return r | Raise e \<Rightarrow> Raise e)"

inductive authorization_run ::
  "string \<Rightarrow> string \<Rightarrow> account \<Rightarrow> string option \<Rightarrow> authorization \<Rightarrow> (unit, int) completion \<Rightarrow> event list \<Rightarrow> bool"
  for s3_domain :: string and acme_supported_challenges :: string and account :: account
    and object_url :: "string option" where
  unsupported:
    "select_challenge acme_supported_challenges (challenges a) = None \<Longrightarrow>
     authorization_run s3_domain acme_supported_challenges account object_url a (Return 1) []"
| unpublished:
    "select_challenge acme_supported_challenges (challenges a) = Some ch \<Longrightarrow>
     publish_run (challenge_obj_name ch) (token ch @ ''.'' @ key_thumbprint account) object_url c tr \<Longrightarrow>
     c \<noteq> Normal () \<Longrightarrow>
     authorization_run s3_domain acme_supported_challenges account object_url a c tr"
| cleaned:
    "select_challenge acme_supported_challenges (challenges a) = Some ch \<Longrightarrow>
     publish_run (challenge_obj_name ch) (token ch @ ''.'' @ key_thumbprint account) object_url (Normal ()) tr1 \<Longrightarrow>
     validate_run s3_domain ch c1 tr2 \<Longrightarrow>
     cleanup_run (challenge_obj_name ch) object_url c2 tr3 \<Longrightarrow>
     authorization_run s3_domain acme_supported_challenges account object_url a
       (after_finally c1 c2) (tr1 @ tr2 @ tr3)"

inductive order_auth_run ::
  "string \<Rightarrow> string \<Rightarrow> account \<Rightarrow> string option \<Rightarrow> authorization list \<Rightarrow> (unit, int) completion \<Rightarrow> event list \<Rightarrow> bool"
  for s3_domain :: string and acme_supported_challenges :: string and account :: account
    and object_url :: "string option" where
  finished: "order_auth_run s3_domain acme_supported_challenges account object_url [] (Normal ()) []"
| stopped:
    "authorization_run s3_domain acme_supported_challenges account object_url a c tr \<Longrightarrow>
     c \<noteq> Normal () \<Longrightarrow>
     order_auth_run s3_domain acme_supported_challenges account object_url (a # rest) c tr"
| continued:
    "authorization_run s3_domain acme_supported_challenges account object_url a (Normal ()) tr1 \<Longrightarrow>
     order_auth_run s3_domain acme_supported_challenges account object_url rest c tr2 \<Longrightarrow>
     order_auth_run s3_domain acme_supported_challenges account object_url (a # rest) c (tr1 @ tr2)"

text \<open>What \<open>order_auth\<close> returns, from the way its loop ends.\<close>

definition returned :: "'r \<Rightarrow> ('a, 'r) completion \<Rightarrow> ('r, 'q) completion" where
  "returned r0 c = (case c of Normal x \<Rightarrow> Normal r0 | Return r \<Rightarrow> Normal r | Raise e \<Rightarrow> Raise e)"

section \<open>What a trace shows\<close>

text \<open>
  The object name, when the event is the request of \<open>create_object_url\<close> for a URL
  with the given method.
\<close>

definition url_request_for :: "string \<Rightarrow> event \<Rightarrow> string option" where
  "url_request_for method ev =
     (case fst ev of
        SessionRequest m url (JsonBody data) \<Rightarrow>
          if m = ''POST'' \<and> map_of data ''method'' = Some method then map_of data ''name'' else None
      | _ \<Rightarrow> None)"

text \<open>The URL that the reply to such a request grants.\<close>

definition granted_url :: "event \<Rightarrow> string option" where
  "granted_url ev = (case field_of_reply ''url'' (snd ev) of Inr (JStr u) \<Rightarrow> Some u | _ \<Rightarrow> None)"

definition put_succeeded :: "string \<Rightarrow> event \<Rightarrow> bool" where
  "put_succeeded u ev =
     (case fst ev of
        PlainRequest m u' b hs \<Rightarrow> m = ''PUT'' \<and> u' = u \<and> status_check (snd ev) = None
      | _ \<Rightarrow> False)"

text \<open>
  The names of the proof objects that were published: a PUT URL was granted for the
  name, and the PUT to that URL, the next event, came back with a success status.
\<close>

fun published_names :: "event list \<Rightarrow> string list" where
  "published_names (e1 # e2 # tr) =
     (case (url_request_for ''PUT'' e1, granted_url e1) of
        (Some name, Some u) \<Rightarrow>
          if put_succeeded u e2 then name # published_names tr else published_names (e2 # tr)
      | _ \<Rightarrow> published_names (e2 # tr))"
| "published_names [e] = []"
| "published_names [] = []"

text \<open>The names of the objects for which a delete was attempted: a DELETE URL was asked for.\<close>

definition deleted_names :: "event list \<Rightarrow> string list" where
  "deleted_names tr = List.map_filter (url_request_for ''DELETE'') tr"

definition is_put :: "event \<Rightarrow> bool" where
  "is_put ev = (case fst ev of PlainRequest m u b hs \<Rightarrow> m = ''PUT'' | _ \<Rightarrow> False)"

definition is_delete :: "event \<Rightarrow> bool" where
  "is_delete ev = (case fst ev of PlainRequest m u b hs \<Rightarrow> m = ''DELETE'' | _ \<Rightarrow> False)"

definition is_respond :: "event \<Rightarrow> bool" where
  "is_respond ev = (case fst ev of ChallengeRespond ch \<Rightarrow> True | _ \<Rightarrow> False)"

text \<open>The reachability check failed: a HEAD request that raised, whatever the exception.\<close>

definition head_failed :: "event \<Rightarrow> bool" where
  "head_failed ev =
     (case fst ev of
        PlainRequest m u b hs \<Rightarrow> m = ''HEAD'' \<and> status_check (snd ev) \<noteq> None
      | _ \<Rightarrow> False)"

definition cleanup_follows :: "string \<Rightarrow> event \<Rightarrow> event list \<Rightarrow> bool" where
  "cleanup_follows s3_domain e post \<longleftrightarrow>
     (\<forall>ev \<in> set post. \<not> is_respond ev)
     \<and> (\<exists>ch. fst e = head_request s3_domain (challenge_obj_name ch)
            \<and> post \<noteq> [] \<and> url_request_for ''DELETE'' (hd post) = Some (challenge_obj_name ch))"

fun head_ok :: "string \<Rightarrow> event list \<Rightarrow> bool" where
  "head_ok s3_domain [] = True"
| "head_ok s3_domain (e # post) =
     ((head_failed e \<longrightarrow> cleanup_follows s3_domain e post) \<and> head_ok s3_domain post)"

definition order_of_reply :: "reply \<Rightarrow> exc + order" where
  "order_of_reply r = (case r of OrderHandle ord \<Rightarrow> Inr ord | Fails e \<Rightarrow> Inl e | _ \<Rightarrow> Inl OtherException)"

text \<open>\<open>except requests.HTTPError: return 1\<close> in a function that returns a code or a value.\<close>

definition reported :: "exc \<Rightarrow> (int + 'a, 'q) completion" where
  "reported e = (if e = HTTPError then Normal (Inl 1) else Raise e)"

definition finalize_request :: "order \<Rightarrow> csr \<Rightarrow> request" where
  "finalize_request ord csr = OrderFinalize ord csr"

definition order_poll_request :: "order \<Rightarrow> request" where
  "order_poll_request ord = OrderPollUntilNot ord [''processing'']"

inductive creating_run ::
  "string \<Rightarrow> string \<Rightarrow> account \<Rightarrow> csr \<Rightarrow> string option \<Rightarrow> (int + string, 'q) completion \<Rightarrow> event list \<Rightarrow> bool"
  for s3_domain :: string and acme_supported_challenges :: string and account :: account
    and csr :: csr and object_url :: "string option" where
  order_refused:
    "order_of_reply r = Inl e \<Longrightarrow> c = reported e \<Longrightarrow>
     creating_run s3_domain acme_supported_challenges account csr object_url c [(NewOrder [s3_domain], r)]"
| not_authorized:
    "order_auth_run s3_domain acme_supported_challenges account object_url (authorizations ord) ca tr \<Longrightarrow>
     ca \<noteq> Normal () \<Longrightarrow>
     c = (case ca of Raise e \<Rightarrow> Raise e | _ \<Rightarrow> Normal (Inl 1)) \<Longrightarrow>
     creating_run s3_domain acme_supported_challenges account csr object_url c
       ((NewOrder [s3_domain], OrderHandle ord) # tr)"
| finalize_failed:
    "order_auth_run s3_domain acme_supported_challenges account object_url (authorizations ord) (Normal ()) tr \<Longrightarrow>
     c = reported e \<Longrightarrow>
     creating_run s3_domain acme_supported_challenges account csr object_url c
       ((NewOrder [s3_domain], OrderHandle ord) # tr @ [(OrderFinalize ord csr, Fails e)])"
| order_poll_failed:
    "order_auth_run s3_domain acme_supported_challenges account object_url (authorizations ord) (Normal ()) tr \<Longrightarrow>
     \<forall>e. r1 \<noteq> Fails e \<Longrightarrow> text_of_reply r2 = Inl e \<Longrightarrow> c = reported e \<Longrightarrow>
     creating_run s3_domain acme_supported_challenges account csr object_url c
       ((NewOrder [s3_domain], OrderHandle ord) # tr
          @ [(OrderFinalize ord csr, r1), (order_poll_request ord, r2)])"
| not_valid:
    "order_auth_run s3_domain acme_supported_challenges account object_url (authorizations ord) (Normal ()) tr \<Longrightarrow>
     \<forall>e. r1 \<noteq> Fails e \<Longrightarrow> polled \<noteq> ''valid'' \<Longrightarrow>
     creating_run s3_domain acme_supported_challenges account csr object_url (Normal (Inl 1))
       ((NewOrder [s3_domain], OrderHandle ord) # tr
          @ [(OrderFinalize ord csr, r1), (order_poll_request ord, Text polled)])"
| fetch_failed:
    "order_auth_run s3_domain acme_supported_challenges account object_url (authorizations ord) (Normal ()) tr \<Longrightarrow>
     \<forall>e. r1 \<noteq> Fails e \<Longrightarrow> text_of_reply r3 = Inl e \<Longrightarrow> c = reported e \<Longrightarrow>
     creating_run s3_domain acme_supported_challenges account csr object_url c
       ((NewOrder [s3_domain], OrderHandle ord) # tr
          @ [(OrderFinalize ord csr, r1), (order_poll_request ord, Text ''valid''),
             (OrderCertificate (ord\<lparr>order_status := ''valid''\<rparr>), r3)])"
| issued:
    "order_auth_run s3_domain acme_supported_challenges account object_url (authorizations ord) (Normal ()) tr \<Longrightarrow>
     \<forall>e. r1 \<noteq> Fails e \<Longrightarrow>
     creating_run s3_domain acme_supported_challenges account csr object_url (Normal (Inr certificate))
       ((NewOrder [s3_domain], OrderHandle ord) # tr
          @ [(OrderFinalize ord csr, r1), (order_poll_request ord, Text ''valid''),
             (OrderCertificate (ord\<lparr>order_status := ''valid''\<rparr>), Text certificate)])"

definition authorization_event :: "event \<Rightarrow> bool" where
  "authorization_event ev =
     (case fst ev of
        SessionRequest m u b \<Rightarrow> True
      | PlainRequest m u b hs \<Rightarrow> True
      | ChallengeRespond ch \<Rightarrow> True
      | ChallengePollUntilNot ch ss \<Rightarrow> True
      | _ \<Rightarrow> False)"

definition is_finalize :: "event \<Rightarrow> bool" where
  "is_finalize ev = (case fst ev of OrderFinalize ord csr \<Rightarrow> True | _ \<Rightarrow> False)"

definition is_certificate_fetch :: "event \<Rightarrow> bool" where
  "is_certificate_fetch ev = (case fst ev of OrderCertificate ord \<Rightarrow> True | _ \<Rightarrow> False)"

definition example_challenges :: "challenge list" where
  "example_challenges =
     [\<lparr>ctype = ''dns-01'', token = ''tok-dns'', status = ''pending''\<rparr>,
      \<lparr>ctype = ''http-01'', token = ''tok 1'', status = ''pending''\<rparr>]"

definition example_order :: order where
  "example_order = \<lparr>authorizations = [\<lparr>challenges = example_challenges\<rparr>], order_status = ''pending''\<rparr>"

definition example_account :: account where
  "example_account = \<lparr>key_thumbprint = ''thumb''\<rparr>"

definition example_storage :: LinodeObjectStorageClient where
  "example_storage = \<lparr>bearer_token = ''secret'', linode_api = ''https://api.linode.com/'', user_agent = ''agent''\<rparr>"

text \<open>A fake world in which every party cooperates.\<close>

definition fake_answer :: "request \<Rightarrow> reply" where
  "fake_answer req =
     (case req of
        SessionRequest m url b \<Rightarrow>
          (if m = ''POST'' then HttpResponse 200 (Some (JObj [(''url'', JStr ''https://signed.example/obj'')]))
           else if m = ''GET'' then
             HttpResponse 200 (Some (JObj [(''data'',
               JList [JObj [(''cluster'', JStr ''us-east''), (''label'', JStr ''my-site'')]])]))
           else HttpResponse 200 (Some (JObj [])))
      | PlainRequest m url b hs \<Rightarrow> HttpResponse 200 None
      | GetEnvSecrets n \<Rightarrow> Text ''secret''
      | LoadPemPrivateKey f \<Rightarrow> KeyHandle \<lparr>public_exponent = 65537, key_size = 4096, pem = ''ACCOUNT KEY''\<rparr>
      | RsaGeneratePrivateKey e n \<Rightarrow> KeyHandle \<lparr>public_exponent = e, key_size = n, pem = ''NEW KEY''\<rparr>
      | AcmeClientInit u k \<Rightarrow> NoValue
      | NewAccount t \<Rightarrow> AccountHandle example_account
      | NewOrder ds \<Rightarrow> OrderHandle example_order
      | ChallengeRespond c \<Rightarrow> NoValue
      | ChallengePollUntilNot c ss \<Rightarrow> Text ''valid''
      | OrderFinalize ord c \<Rightarrow> NoValue
      | OrderPollUntilNot ord ss \<Rightarrow> Text ''valid''
      | OrderCertificate ord \<Rightarrow> Text ''CERT''
      | SessionClose n \<Rightarrow> NoValue)"

text \<open>A fake world that cooperates except where \<open>f\<close> says otherwise.\<close>

definition example_world :: "(request \<Rightarrow> reply option) \<Rightarrow> world" where
  "example_world f =
     \<lparr>answer = (\<lambda>h req. case f req of Some r \<Rightarrow> r | None \<Rightarrow> fake_answer req),
      netloc_ok = (\<lambda>netloc. True)\<rparr>"

definition happy_world :: world where
  "happy_world = example_world (\<lambda>req. None)"

definition head_404_world :: world where
  "head_404_world = example_world (\<lambda>req. case req of
       PlainRequest m u b hs \<Rightarrow> if m = ''HEAD'' then Some (HttpResponse 404 None) else None
     | _ \<Rightarrow> None)"

definition put_403_world :: world where
  "put_403_world = example_world (\<lambda>req. case req of
       PlainRequest m u b hs \<Rightarrow> if m = ''PUT'' then Some (HttpResponse 403 None) else None
     | _ \<Rightarrow> None)"

definition acl_403_world :: world where
  "acl_403_world = example_world (\<lambda>req. case req of
       SessionRequest m u b \<Rightarrow>
         if m = ''PUT'' then Some (HttpResponse 403 (Some (JObj [(''errors'', JList [])]))) else None
     | _ \<Rightarrow> None)"

definition order_invalid_world :: world where
  "order_invalid_world = example_world (\<lambda>req. case req of
       OrderPollUntilNot ord ss \<Rightarrow> Some (Text ''invalid'')
     | _ \<Rightarrow> None)"

definition delete_ssl_500_world :: world where
  "delete_ssl_500_world = example_world (\<lambda>req. case req of
       SessionRequest m u b \<Rightarrow> if m = ''DELETE'' then Some (HttpResponse 500 None) else None
     | _ \<Rightarrow> None)"

definition registration_403_world :: world where
  "registration_403_world = example_world (\<lambda>req. case req of
       NewAccount t \<Rightarrow> Some (Fails HTTPError)
     | _ \<Rightarrow> None)"

text \<open>The events of the example runs.\<close>

definition example_name :: string where
  "example_name = ''/.well-known/acme-challenge/tok%201''"

definition object_url_endpoint :: string where
  "object_url_endpoint = ''https://api.linode.com/v4/object-storage/buckets/us-east/my-site                /object-url''"

definition signed_url :: string where
  "signed_url = ''https://signed.example/obj''"

definition grant_put_event :: event where
  "grant_put_event =
     (SessionRequest ''POST'' object_url_endpoint
        (JsonBody [(''name'', example_name), (''method'', ''PUT''),
                   (''content_type'', ''text/plain''), (''expires_in'', ''360'')]),
      HttpResponse 200 (Some (JObj [(''url'', JStr signed_url)])))"

definition put_event :: "reply \<Rightarrow> event" where
  "put_event r =
     (PlainRequest ''PUT'' signed_url (DataBody ''tok 1.thumb'') [(''Content-Type'', ''text/plain'')], r)"

definition acl_event :: "reply \<Rightarrow> event" where
  "acl_event r =
     (SessionRequest ''PUT''
        ''https://api.linode.com/v4/object-storage/buckets/us-east                /my-site/object-acl''
        (JsonBody [(''name'', example_name), (''acl'', ''public-read'')]), r)"

definition head_event :: "reply \<Rightarrow> event" where
  "head_event r =
     (PlainRequest ''HEAD'' ''http://example.com/.well-known/acme-challenge/tok%201'' NoBody [], r)"

definition dns_challenge :: challenge where
  "dns_challenge = \<lparr>ctype = ''dns-01'', token = ''tok-dns'', status = ''pending''\<rparr>"

definition http_challenge :: challenge where
  "http_challenge = \<lparr>ctype = ''http-01'', token = ''tok 1'', status = ''pending''\<rparr>"

definition respond_event :: event where
  "respond_event = (ChallengeRespond http_challenge, NoValue)"

definition challenge_poll_event :: "reply \<Rightarrow> event" where
  "challenge_poll_event r = (ChallengePollUntilNot http_challenge [''processing'', ''pending''], r)"

definition grant_delete_event :: event where
  "grant_delete_event =
     (SessionRequest ''POST'' object_url_endpoint
        (JsonBody [(''name'', example_name), (''method'', ''DELETE''), (''expires_in'', ''360'')]),
      HttpResponse 200 (Some (JObj [(''url'', JStr signed_url)])))"

definition delete_event :: event where
  "delete_event = (PlainRequest ''DELETE'' signed_url NoBody [], HttpResponse 200 None)"

definition example_key :: rsa_key where
  "example_key = \<lparr>public_exponent = 65537, key_size = 4096, pem = ''NEW KEY''\<rparr>"

definition example_csr :: csr where
  "example_csr = generate_csr ''example.com'' example_key"

definition authorization_events :: "event list" where
  "authorization_events =
     [grant_put_event, put_event (HttpResponse 200 None), acl_event (HttpResponse 200 (Some (JObj []))),
      head_event (HttpResponse 200 None), respond_event, challenge_poll_event (Text ''valid''),
      grant_delete_event, delete_event]"


lemmas prog_simps = pure_def ret_def raise_def bind_def try_except_http_def try_finally_def call_def perform_def

lemma session_json:
  "bind (session_request w m u b) (\<lambda>r. bind (raise_for_status r) (\<lambda>_. response_json r)) h =
     ((case json_of_reply (answer w h (SessionRequest m u b)) of Inl e \<Rightarrow> Raise e | Inr j \<Rightarrow> Normal j),
      [(SessionRequest m u b, answer w h (SessionRequest m u b))])"
  by (simp add: prog_simps session_request_def http_reply_def raise_for_status_def response_json_def
        json_of_reply_def status_check_def
      split: reply.splits option.splits)

lemma session_field:
  "bind (session_request w m u b) (\<lambda>r. bind (raise_for_status r) (\<lambda>_.
     bind (response_json r) (\<lambda>response. subscript response k))) h =
     ((case field_of_reply k (answer w h (SessionRequest m u b)) of Inl e \<Rightarrow> Raise e | Inr j \<Rightarrow> Normal j),
      [(SessionRequest m u b, answer w h (SessionRequest m u b))])"
  by (simp add: prog_simps session_request_def http_reply_def raise_for_status_def response_json_def
        subscript_def field_of_reply_def json_of_reply_def status_check_def
      split: reply.splits option.splits json.splits)

lemma plain_status:
  "bind (plain_request w m url b hs) raise_for_status h =
     (case url of
        JStr u \<Rightarrow> ((case status_check (answer w h (PlainRequest m u b hs)) of Some e \<Rightarrow> Raise e | None \<Rightarrow> Normal ()),
                    [(PlainRequest m u b hs, answer w h (PlainRequest m u b hs))])
      | _ \<Rightarrow> (Raise OtherException, []))"
  by (simp add: prog_simps plain_request_def http_reply_def raise_for_status_def status_check_def
      split: reply.splits json.splits)

lemma create_object_url_apply:
  "create_object_url w self cluster bucket name method content_type expires_in h =
     (case urljoin (netloc_ok w) (linode_api self) (object_url_ref cluster bucket) of
        None \<Rightarrow> (Raise OtherException, [])
      | Some url \<Rightarrow>
          bind (session_request w ''POST'' url (JsonBody (object_url_data name method content_type expires_in)))
            (\<lambda>r. bind (raise_for_status r) (\<lambda>_. bind (response_json r) (\<lambda>response. subscript response ''url''))) h)"
  by (simp add: create_object_url_def api_url_def object_url_data_def Let_def
        bind_def [where m = "case x of None \<Rightarrow> a | Some y \<Rightarrow> b y" for x a b] raise_def pure_def
      split: option.splits)

lemma caught_simps [simp]:
  "caught r e \<noteq> Normal x" "Normal x \<noteq> caught r e"
  "caught r e = Return r' \<longleftrightarrow> e = HTTPError \<and> r' = r"
  "Return r' = caught r e \<longleftrightarrow> e = HTTPError \<and> r' = r"
  "caught r e = Raise e' \<longleftrightarrow> e \<noteq> HTTPError \<and> e' = e"
  "Raise e' = caught r e \<longleftrightarrow> e \<noteq> HTTPError \<and> e' = e"
  by (auto simp: caught_def)

lemma bind_cases:
  assumes "bind m f h = (c, tr)"
  obtains (normal) x tr1 tr2 where "m h = (Normal x, tr1)" "f x (h @ tr1) = (c, tr2)" "tr = tr1 @ tr2"
        | (return) r where "m h = (Return r, tr)" "c = Return r"
        | (raise) e where "m h = (Raise e, tr)" "c = Raise e"
  using assms by (auto simp: bind_def split: prod.splits completion.splits)

lemma try_except_http_cases:
  assumes "try_except_http m handler h = (c, tr)"
  obtains (caught) tr1 tr2 where "m h = (Raise HTTPError, tr1)" "handler (h @ tr1) = (c, tr2)" "tr = tr1 @ tr2"
        | (passed) "m h = (c, tr)" "c \<noteq> Raise HTTPError"
  using assms by (auto simp: try_except_http_def split: prod.splits completion.splits if_splits)

lemma try_finally_cases:
  assumes "try_finally m fin h = (c, tr)"
  obtains c1 tr1 c2 tr2 where "m h = (c1, tr1)" "fin (h @ tr1) = (c2, tr2)" "tr = tr1 @ tr2"
    "c = (case c2 of Normal u \<Rightarrow> c1 | Return r \<Rightarrow> Return r | Raise e \<Rightarrow> Raise e)"
proof (cases "m h")
  case (Pair c1 tr1)
  obtain c2 tr2 where fin: "fin (h @ tr1) = (c2, tr2)" by (cases "fin (h @ tr1)")
  with assms Pair have "tr = tr1 @ tr2" "c = (case c2 of Normal u \<Rightarrow> c1 | Return r \<Rightarrow> Return r | Raise e \<Rightarrow> Raise e)"
    by (auto simp: try_finally_def split: completion.splits)
  with Pair fin show ?thesis by (rule that)
qed

lemma create_object_url_cases:
  assumes "create_object_url w self cluster bucket name method content_type expires_in h = (c, tr)"
  obtains (no_url) "urljoin (netloc_ok w) (linode_api self) (object_url_ref cluster bucket) = None"
            "c = Raise OtherException" "tr = []"
        | (asked) url r where "urljoin (netloc_ok w) (linode_api self) (object_url_ref cluster bucket) = Some url"
            "tr = [(SessionRequest ''POST'' url (JsonBody (object_url_data name method content_type expires_in)), r)]"
            "c = (case field_of_reply ''url'' r of Inl e \<Rightarrow> Raise e | Inr v \<Rightarrow> Normal v)"
  using assms unfolding create_object_url_apply
  by (auto simp: session_field split: option.splits)

lemma plain_status_cases:
  assumes "bind (plain_request w m url b hs) raise_for_status h = (c, tr)"
  obtains (no_string) "\<forall>u. url \<noteq> JStr u" "c = Raise OtherException" "tr = []"
        | (asked) u r where "url = JStr u" "tr = [(PlainRequest m u b hs, r)]"
            "c = (case status_check r of Some e \<Rightarrow> Raise e | None \<Rightarrow> Normal ())"
  using assms unfolding plain_status
  by (auto split: json.splits)

lemma grant_and_use_cases:
  assumes "bind (create_object_url w self cluster bucket name method content_type expires_in)
             (\<lambda>u. bind (plain_request w m u b hs) raise_for_status) h = (c, tr)"
  obtains (no_url) "urljoin (netloc_ok w) (linode_api self) (object_url_ref cluster bucket) = None"
            "c = Raise OtherException" "tr = []"
        | (not_granted) url r e where
            "urljoin (netloc_ok w) (linode_api self) (object_url_ref cluster bucket) = Some url"
            "tr = [(SessionRequest ''POST'' url (JsonBody (object_url_data name method content_type expires_in)), r)]"
            "field_of_reply ''url'' r = Inl e" "c = Raise e"
        | (no_string) url r v where
            "urljoin (netloc_ok w) (linode_api self) (object_url_ref cluster bucket) = Some url"
            "tr = [(SessionRequest ''POST'' url (JsonBody (object_url_data name method content_type expires_in)), r)]"
            "field_of_reply ''url'' r = Inr v" "\<forall>u. v \<noteq> JStr u" "c = Raise OtherException"
        | (used) url r u r2 where
            "urljoin (netloc_ok w) (linode_api self) (object_url_ref cluster bucket) = Some url"
            "tr = [(SessionRequest ''POST'' url (JsonBody (object_url_data name method content_type expires_in)), r),
                   (PlainRequest m u b hs, r2)]"
            "field_of_reply ''url'' r = Inr (JStr u)"
            "c = (case status_check r2 of Some e \<Rightarrow> Raise e | None \<Rightarrow> Normal ())"
  using assms
proof (cases rule: bind_cases)
  case (normal x tr1 tr2)
  from normal(1) obtain url r where 1: "urljoin (netloc_ok w) (linode_api self) (object_url_ref cluster bucket) = Some url"
      "tr1 = [(SessionRequest ''POST'' url (JsonBody (object_url_data name method content_type expires_in)), r)]"
      "field_of_reply ''url'' r = Inr x"
    by (cases rule: create_object_url_cases) (auto split: sum.splits)
  from normal(2) show ?thesis
  proof (cases rule: plain_status_cases)
    case no_string
    with 1 normal(3) show ?thesis by (intro that(3)) auto
  next
    case (asked u r2)
    with 1 normal(3) show ?thesis by (intro that(4)) auto
  qed
next
  case (return r)
  then show ?thesis by (cases rule: create_object_url_cases) (auto split: sum.splits)
next
  case (raise e)
  from raise(1) show ?thesis
  proof (cases rule: create_object_url_cases)
    case no_url
    with raise show ?thesis by (intro that(1)) auto
  next
    case (asked url r)
    with raise show ?thesis by (intro that(2)) (auto split: sum.splits)
  qed
qed

lemma publish_steps_run:
  assumes "publish_steps w os cl l name data h = (c, tr)"
  shows "publish_run name data (urljoin (netloc_ok w) (linode_api os) (object_url_ref cl l)) c tr"
  using assms unfolding publish_steps_def
proof (cases rule: try_except_http_cases)
  case (caught tr1 tr2)
  from caught(2,3) have c: "c = Return 1" "tr = tr1" by (simp_all add: ret_def)
  from caught(1) show ?thesis unfolding c
    by (cases rule: grant_and_use_cases)
       (auto simp: put_url_request_def [symmetric] put_request_def [symmetric] caught_def
          split: option.splits intro: publish_run.intros)
next
  case passed
  from passed(1) show ?thesis using passed(2)
    by (cases rule: grant_and_use_cases)
       (auto simp: put_url_request_def [symmetric] put_request_def [symmetric] caught_def
          split: option.splits intro: publish_run.intros)
qed

lemma cleanup_steps_run:
  assumes "cleanup_steps w os cl l name h = (c, tr)"
  shows "cleanup_run name (urljoin (netloc_ok w) (linode_api os) (object_url_ref cl l)) c tr"
  using assms unfolding cleanup_steps_def
proof (cases rule: try_except_http_cases)
  case (caught tr1 tr2)
  from caught(2,3) have c: "c = Normal ()" "tr = tr1" by (simp_all add: pure_def)
  from caught(1) show ?thesis unfolding c
    by (cases rule: grant_and_use_cases)
       (auto simp: delete_url_request_def [symmetric]
          split: option.splits intro: cleanup_run.intros)
next
  case passed
  from passed(1) show ?thesis using passed(2)
    by (cases rule: grant_and_use_cases)
       (auto simp: delete_url_request_def [symmetric]
          split: option.splits intro: cleanup_run.intros)
qed

lemma update_object_acl_cases:
  assumes "update_object_acl w os cl l name ''public-read'' h = (c, tr)"
  obtains (no_url) "c = Raise OtherException" "tr = []"
        | (asked) url r where "tr = [(acl_request url name, r)]"
            "c = (case json_of_reply r of Inl e \<Rightarrow> Raise e | Inr j \<Rightarrow> Normal j)"
proof (cases "urljoin (netloc_ok w) (linode_api os) (object_acl_ref cl l)")
  case None
  with assms have "c = Raise OtherException" "tr = []"
    by (simp_all add: update_object_acl_def api_url_def Let_def bind_def raise_def)
  then show ?thesis by (rule that(1))
next
  case (Some url)
  with assms have "tr = [(acl_request url name, answer w h (acl_request url name))]"
    "c = (case json_of_reply (answer w h (acl_request url name)) of Inl e \<Rightarrow> Raise e | Inr j \<Rightarrow> Normal j)"
    by (auto simp: update_object_acl_def api_url_def Let_def acl_request_def session_json
          bind_def [where m = "pure x" for x] pure_def)
  then show ?thesis by (rule that(2))
qed

lemma head_cases:
  assumes "try_except_http (bind (plain_request w ''HEAD'' (JStr (urlunsplit (''http'', d, name, '''', ''''))) NoBody [])
             raise_for_status) (ret 1) h = (c, tr)"
  obtains r where "tr = [(head_request d name, r)]"
    "c = (case status_check r of None \<Rightarrow> Normal () | Some e \<Rightarrow> caught 1 e)"
  using assms
  by (auto simp: try_except_http_def plain_status head_request_def caught_def ret_def
      split: option.splits if_splits)

lemma perform_no_reply:
  "bind (perform w req) no_reply h =
     ((case failure_of_reply (answer w h req) of Some e \<Rightarrow> Raise e | None \<Rightarrow> Normal ()),
      [(req, answer w h req)])"
  by (cases "answer w h req") (simp_all add: prog_simps no_reply_def failure_of_reply_def)

lemma perform_text_reply:
  "bind (perform w req) text_reply h =
     ((case text_of_reply (answer w h req) of Inl e \<Rightarrow> Raise e | Inr s \<Rightarrow> Normal s),
      [(req, answer w h req)])"
  by (cases "answer w h req") (simp_all add: prog_simps text_reply_def text_of_reply_def)

lemma respond_poll_apply:
  "try_except_http
     (bind (bind (perform w (ChallengeRespond ch)) no_reply) (\<lambda>_.
      bind (perform w (ChallengePollUntilNot ch [''processing'', ''pending''])) text_reply))
     (ret 1) h =
   (case failure_of_reply (answer w h (ChallengeRespond ch)) of
      Some e \<Rightarrow> (caught 1 e, [(ChallengeRespond ch, answer w h (ChallengeRespond ch))])
    | None \<Rightarrow>
        ((case text_of_reply (answer w (h @ [(ChallengeRespond ch, answer w h (ChallengeRespond ch))]) (poll_request ch)) of
            Inl e \<Rightarrow> caught 1 e
          | Inr polled \<Rightarrow> Normal polled),
         [(ChallengeRespond ch, answer w h (ChallengeRespond ch)),
          (poll_request ch, answer w (h @ [(ChallengeRespond ch, answer w h (ChallengeRespond ch))]) (poll_request ch))]))"
proof -
  have inner: "bind (bind (perform w (ChallengeRespond ch)) no_reply) (\<lambda>_.
      bind (perform w (ChallengePollUntilNot ch [''processing'', ''pending''])) text_reply) h =
   (case failure_of_reply (answer w h (ChallengeRespond ch)) of
      Some e \<Rightarrow> (Raise e, [(ChallengeRespond ch, answer w h (ChallengeRespond ch))])
    | None \<Rightarrow>
        ((case text_of_reply (answer w (h @ [(ChallengeRespond ch, answer w h (ChallengeRespond ch))]) (poll_request ch)) of
            Inl e \<Rightarrow> Raise e
          | Inr polled \<Rightarrow> Normal polled),
         [(ChallengeRespond ch, answer w h (ChallengeRespond ch)),
          (poll_request ch, answer w (h @ [(ChallengeRespond ch, answer w h (ChallengeRespond ch))]) (poll_request ch))]))"
    by (subst bind_def) (simp add: perform_no_reply perform_text_reply poll_request_def split: option.splits)
  show ?thesis
    by (simp add: try_except_http_def inner ret_def caught_def split: option.splits sum.splits)
qed

lemma respond_poll_cases:
  assumes "try_except_http
     (bind (bind (perform w (ChallengeRespond ch)) no_reply) (\<lambda>_.
      bind (perform w (ChallengePollUntilNot ch [''processing'', ''pending''])) text_reply))
     (ret 1) h = (c, tr)"
  obtains (respond_failed) e where "tr = [(ChallengeRespond ch, Fails e)]" "c = caught 1 e"
        | (poll_failed) r3 r4 e where "tr = [(ChallengeRespond ch, r3), (poll_request ch, r4)]"
            "\<forall>e. r3 \<noteq> Fails e" "text_of_reply r4 = Inl e" "c = caught 1 e"
        | (polled) r3 polled where "tr = [(ChallengeRespond ch, r3), (poll_request ch, Text polled)]"
            "\<forall>e. r3 \<noteq> Fails e" "c = Normal polled"
proof -
  define r3 where "r3 = answer w h (ChallengeRespond ch)"
  define r4 where "r4 = answer w (h @ [(ChallengeRespond ch, r3)]) (poll_request ch)"
  note run = assms [unfolded respond_poll_apply, folded r3_def, folded r4_def]
  show ?thesis
  proof (cases "failure_of_reply r3")
    case (Some e)
    then have "r3 = Fails e" by (simp add: failure_of_reply_def split: reply.splits)
    with run Some show ?thesis by (intro that(1)) auto
  next
    case None
    then have r3: "\<forall>e. r3 \<noteq> Fails e" by (auto simp: failure_of_reply_def)
    show ?thesis
    proof (cases "text_of_reply r4")
      case (Inl e)
      with run None r3 show ?thesis by (intro that(2)) auto
    next
      case (Inr polled)
      then have "r4 = Text polled" by (simp add: text_of_reply_def split: reply.splits)
      with run None r3 Inr show ?thesis by (intro that(3)) auto
    qed
  qed
qed

lemma validate_steps_run:
  assumes "validate_steps w d cl l os ch h = (c, tr)"
  shows "validate_run d ch c tr"
  using assms unfolding validate_steps_def
proof (cases rule: bind_cases)
  case (return r)
  then show ?thesis by (cases rule: update_object_acl_cases) (auto split: sum.splits)
next
  case (raise e)
  then show ?thesis
    by (cases rule: update_object_acl_cases) (auto split: sum.splits intro: validate_run.intros)
next
  case acl: (normal x tr1 tr2)
  from acl(1) obtain url r1 where 1: "tr1 = [(acl_request url (challenge_obj_name ch), r1)]" "json_of_reply r1 = Inr x"
    by (cases rule: update_object_acl_cases) (auto split: sum.splits)
  from acl(2) show ?thesis
  proof (cases rule: bind_cases)
    case (return r)
    from return(1) obtain r2 where "tr2 = [(head_request d (challenge_obj_name ch), r2)]"
      "Return r = (case status_check r2 of None \<Rightarrow> Normal () | Some e \<Rightarrow> (caught 1 e :: (unit, int) completion))"
      by (rule head_cases)
    with 1 acl(3) return(2) show ?thesis
      by (auto split: option.splits intro!: validate_run.head_failed)
  next
    case (raise e)
    from raise(1) obtain r2 where "tr2 = [(head_request d (challenge_obj_name ch), r2)]"
      "Raise e = (case status_check r2 of None \<Rightarrow> Normal () | Some e \<Rightarrow> (caught 1 e :: (unit, int) completion))"
      by (rule head_cases)
    with 1 acl(3) raise(2) show ?thesis
      by (auto split: option.splits intro!: validate_run.head_failed)
  next
    case head: (normal y tr3 tr4)
    from head(1) obtain r2 where 2: "tr3 = [(head_request d (challenge_obj_name ch), r2)]" "status_check r2 = None"
      by (rule head_cases) (auto split: option.splits simp: caught_def split: if_splits)
    from head(2) show ?thesis
    proof (cases rule: bind_cases)
      case (return r)
      from return(1) show ?thesis using 1 2 acl(3) head(3) return(2)
        by (cases rule: respond_poll_cases)
           (auto intro!: validate_run.respond_failed validate_run.poll_failed)
    next
      case (raise e)
      from raise(1) show ?thesis using 1 2 acl(3) head(3) raise(2)
        by (cases rule: respond_poll_cases)
           (auto intro!: validate_run.respond_failed validate_run.poll_failed)
    next
      case poll: (normal polled tr5 tr6)
      from poll(2) have 6: "tr6 = []" "c = (if polled \<noteq> ''valid'' then Return 1 else Normal ())"
        by (auto simp: ret_def pure_def split: if_splits)
      from poll(1) show ?thesis using 1 2 6 acl(3) head(3) poll(3)
        by (cases rule: respond_poll_cases)
           (auto intro!: validate_run.polled)
    qed
  qed
qed

lemma order_auth_authorization_steps:
  "order_auth_authorization w d cl l sc acct os a =
     (case select_challenge sc (challenges a) of
        None \<Rightarrow> ret 1
      | Some ch \<Rightarrow>
          bind (publish_steps w os cl l (challenge_obj_name ch) (token ch @ ''.'' @ key_thumbprint acct)) (\<lambda>_.
          try_finally (validate_steps w d cl l os ch) (cleanup_steps w os cl l (challenge_obj_name ch))))"
  by (simp add: order_auth_authorization_def publish_steps_def validate_steps_def cleanup_steps_def Let_def
      split: option.splits)

lemma order_auth_authorization_run:
  assumes "order_auth_authorization w d cl l sc acct os a h = (c, tr)"
  shows "authorization_run d sc acct (urljoin (netloc_ok w) (linode_api os) (object_url_ref cl l)) a c tr"
proof (cases "select_challenge sc (challenges a)")
  case None
  with assms have "c = Return 1" "tr = []"
    by (simp_all add: order_auth_authorization_steps ret_def)
  with None show ?thesis by (simp add: authorization_run.unsupported)
next
  case (Some ch)
  with assms have run:
    "bind (publish_steps w os cl l (challenge_obj_name ch) (token ch @ ''.'' @ key_thumbprint acct)) (\<lambda>_.
       try_finally (validate_steps w d cl l os ch) (cleanup_steps w os cl l (challenge_obj_name ch))) h = (c, tr)"
    by (simp add: order_auth_authorization_steps)
  from run show ?thesis
  proof (cases rule: bind_cases)
    case (normal x tr1 tr2)
    from normal(1) have 1: "publish_run (challenge_obj_name ch) (token ch @ ''.'' @ key_thumbprint acct)
        (urljoin (netloc_ok w) (linode_api os) (object_url_ref cl l)) (Normal ()) tr1"
      by (auto dest: publish_steps_run)
    from normal(2) obtain c1 tr3 c2 tr4 where
      2: "validate_steps w d cl l os ch (h @ tr1) = (c1, tr3)"
      and 3: "cleanup_steps w os cl l (challenge_obj_name ch) ((h @ tr1) @ tr3) = (c2, tr4)"
      and 4: "tr2 = tr3 @ tr4" "c = after_finally c1 c2"
      unfolding after_finally_def by (rule try_finally_cases)
    from Some 1 validate_steps_run [OF 2] cleanup_steps_run [OF 3]
    show ?thesis unfolding normal(3) 4 by (rule authorization_run.cleaned)
  next
    case (return r)
    from publish_steps_run [OF return(1)] Some show ?thesis
      unfolding return(2) by (intro authorization_run.unpublished) auto
  next
    case (raise e)
    from publish_steps_run [OF raise(1)] Some show ?thesis
      unfolding raise(2) by (intro authorization_run.unpublished) auto
  qed
qed

lemma order_auth_loop_run:
  "order_auth_loop w d cl l sc acct os auths h = (c, tr) \<Longrightarrow>
   order_auth_run d sc acct (urljoin (netloc_ok w) (linode_api os) (object_url_ref cl l)) auths c tr"
proof (induction auths arbitrary: h c tr)
  case Nil
  then show ?case by (auto simp: pure_def intro: order_auth_run.finished)
next
  case (Cons a rest)
  from Cons.prems have
    "bind (order_auth_authorization w d cl l sc acct os a) (\<lambda>_. order_auth_loop w d cl l sc acct os rest) h = (c, tr)"
    by simp
  then show ?case
  proof (cases rule: bind_cases)
    case (normal x tr1 tr2)
    from order_auth_authorization_run [OF normal(1)] Cons.IH [OF normal(2)]
    show ?thesis unfolding normal(3) by (simp add: order_auth_run.continued)
  next
    case (return r)
    from order_auth_authorization_run [OF return(1)]
    show ?thesis unfolding return(2) by (rule order_auth_run.stopped) simp
  next
    case (raise e)
    from order_auth_authorization_run [OF raise(1)]
    show ?thesis unfolding raise(2) by (rule order_auth_run.stopped) simp
  qed
qed

lemma order_auth_run:
  assumes "order_auth w ord d cl l sc acct os h = (c, tr)"
  obtains c' where
    "order_auth_run d sc acct (urljoin (netloc_ok w) (linode_api os) (object_url_ref cl l)) (authorizations ord) c' tr"
    "c = returned 0 c'"
proof -
  obtain c' tr' where loop: "order_auth_loop w d cl l sc acct os (authorizations ord) h = (c', tr')"
    by (cases "order_auth_loop w d cl l sc acct os (authorizations ord) h")
  with assms have "tr = tr'" "c = returned 0 c'"
    by (auto simp: order_auth_def call_def bind_def ret_def returned_def split: completion.splits)
  with order_auth_loop_run [OF loop] show ?thesis by (auto intro: that)
qed

section \<open>Lemmas\<close>

lemma object_url_data_fields [simp]:
  "map_of (object_url_data name method ct ex) ''name'' = Some name"
  "map_of (object_url_data name method ct ex) ''method'' = Some method"
  by (simp_all add: object_url_data_def)

lemma url_request_for_simps [simp]:
  "url_request_for m (put_url_request url name, r) = (if m = ''PUT'' then Some name else None)"
  "url_request_for m (delete_url_request url name, r) = (if m = ''DELETE'' then Some name else None)"
  "url_request_for m (put_request u data, r) = None"
  "url_request_for m (acl_request url name, r) = None"
  "url_request_for m (head_request d name, r) = None"
  "url_request_for m (poll_request ch, r) = None"
  "url_request_for m (ChallengeRespond ch, r) = None"
  "url_request_for m (PlainRequest m' u b hs, r) = None"
  by (auto simp: url_request_for_def put_url_request_def delete_url_request_def put_request_def
        acl_request_def head_request_def poll_request_def)

lemma is_respond_simps [simp]:
  "\<not> is_respond (put_url_request url name, r)"
  "\<not> is_respond (delete_url_request url name, r)"
  "\<not> is_respond (put_request u data, r)"
  "\<not> is_respond (acl_request url name, r)"
  "\<not> is_respond (head_request d name, r)"
  "\<not> is_respond (poll_request ch, r)"
  "is_respond (ChallengeRespond ch, r)"
  "\<not> is_respond (PlainRequest m' u b hs, r)"
  by (auto simp: is_respond_def put_url_request_def delete_url_request_def put_request_def
        acl_request_def head_request_def poll_request_def)

lemma head_failed_simps [simp]:
  "\<not> head_failed (put_url_request url name, r)"
  "\<not> head_failed (delete_url_request url name, r)"
  "\<not> head_failed (put_request u data, r)"
  "\<not> head_failed (acl_request url name, r)"
  "head_failed (head_request d name, r) \<longleftrightarrow> status_check r \<noteq> None"
  "\<not> head_failed (poll_request ch, r)"
  "\<not> head_failed (ChallengeRespond ch, r)"
  "\<not> head_failed (PlainRequest ''DELETE'' u b hs, r)"
  by (auto simp: head_failed_def put_url_request_def delete_url_request_def put_request_def
        acl_request_def head_request_def poll_request_def)

lemma deleted_names_simps [simp]:
  "deleted_names [] = []"
  "deleted_names (e # tr) = (case url_request_for ''DELETE'' e of None \<Rightarrow> deleted_names tr | Some n \<Rightarrow> n # deleted_names tr)"
  by (simp_all add: deleted_names_def List.map_filter_simps split: option.splits)

lemma deleted_names_append [simp]:
  "deleted_names (tr1 @ tr2) = deleted_names tr1 @ deleted_names tr2"
  by (induction tr1) (auto split: option.splits)

lemma published_names_none:
  "\<forall>e \<in> set tr. url_request_for ''PUT'' e = None \<Longrightarrow> published_names tr = []"
  by (induction tr rule: published_names.induct) auto

lemma published_names_append:
  "tr1 = [] \<or> url_request_for ''PUT'' (last tr1) = None \<Longrightarrow>
   published_names (tr1 @ tr2) = published_names tr1 @ published_names tr2"
proof (induction tr1 rule: published_names.induct)
  case (1 e1 e2 tr)
  then show ?case by (cases "tr = []") (auto split: option.splits)
next
  case (2 e)
  then show ?case by (cases tr2) auto
next
  case 3
  then show ?case by simp
qed

lemma head_ok_append:
  "\<forall>e \<in> set tr1. \<not> head_failed e \<Longrightarrow> head_ok d (tr1 @ tr2) = head_ok d tr2"
  by (induction tr1) auto

lemma head_ok_none: "\<forall>e \<in> set tr. \<not> head_failed e \<Longrightarrow> head_ok d tr"
  by (induction tr) auto

lemma head_ok_split:
  "head_ok d (pre @ e # post) \<Longrightarrow> head_failed e \<Longrightarrow> cleanup_follows d e post"
  by (induction pre) auto

subsection \<open>Publishing and deleting\<close>

lemma publish_run_deleted: "publish_run name data uo c tr \<Longrightarrow> deleted_names tr = []"
  by (induction rule: publish_run.induct) simp_all

lemma put_succeeded_put_request [simp]:
  "put_succeeded u (put_request u' data, r) \<longleftrightarrow> u' = u \<and> status_check r = None"
  by (auto simp: put_succeeded_def put_request_def)

lemma granted_url_simp [simp]:
  "granted_url (req, r) = (case field_of_reply ''url'' r of Inr (JStr u) \<Rightarrow> Some u | _ \<Rightarrow> None)"
  by (simp add: granted_url_def)

lemma publish_run_failed:
  "publish_run name data uo c tr \<Longrightarrow> c \<noteq> Normal () \<Longrightarrow> published_names tr = []"
  by (induction rule: publish_run.induct) (auto split: sum.splits json.splits)

lemma publish_run_quiet:
  "publish_run name data uo c tr \<Longrightarrow> \<forall>e \<in> set tr. \<not> head_failed e \<and> \<not> is_respond e"
  by (induction rule: publish_run.induct) auto

lemma publish_run_done:
  assumes "publish_run name data uo (Normal ()) tr"
  shows "uo \<noteq> None" and "published_names (tr @ rest) = name # published_names rest"
  using assms
  by (induction uo "Normal () :: (unit, int) completion" tr rule: publish_run.induct) auto

lemma validate_run_no_url_request:
  "validate_run d ch c tr \<Longrightarrow> \<forall>e \<in> set tr. url_request_for m e = None"
  by (induction rule: validate_run.induct) auto

lemma cleanup_run_some:
  assumes "cleanup_run name (Some url) c tr"
  shows "deleted_names tr = [name]" and "\<forall>e \<in> set tr. url_request_for ''PUT'' e = None"
    and "tr \<noteq> []" and "url_request_for ''DELETE'' (hd tr) = Some name"
    and "\<forall>e \<in> set tr. \<not> head_failed e \<and> \<not> is_respond e"
  using assms
  by (induction "Some url :: string option" c tr rule: cleanup_run.induct) auto

lemma authorization_run_names:
  assumes "authorization_run d sc acct uo a c tr"
  shows "deleted_names tr = published_names tr"
    and "c = Normal () \<longrightarrow> tr \<noteq> [] \<and> url_request_for ''PUT'' (last tr) = None"
  using assms
proof (induction rule: authorization_run.induct)
  case (unsupported a)
  case 1 show ?case by simp
  case 2 show ?case by simp
next
  case (unpublished a ch c tr)
  case 1 from unpublished show ?case by (simp add: publish_run_deleted publish_run_failed)
  case 2 from unpublished show ?case by simp
next
  case (cleaned a ch tr1 c1 tr2 c2 tr3)
  from publish_run_done(1) [OF cleaned(2)] obtain url where url: "uo = Some url" by blast
  note cl = cleanup_run_some [OF cleaned(4) [unfolded url]]
  have quiet: "\<forall>e \<in> set (tr2 @ tr3). url_request_for ''PUT'' e = None"
    using validate_run_no_url_request [OF cleaned(3)] cl(2) by auto
  case 1
  have "deleted_names (tr1 @ tr2 @ tr3) = [challenge_obj_name ch]"
    using publish_run_deleted [OF cleaned(2)] validate_run_no_url_request [OF cleaned(3), of "''DELETE''"] cl(1)
    by (simp add: deleted_names_def List.map_filter_def)
  moreover have "published_names (tr1 @ tr2 @ tr3) = [challenge_obj_name ch]"
    using publish_run_done(2) [OF cleaned(2)] published_names_none [OF quiet] by simp
  ultimately show ?case by simp
  case 2
  from cl(2,3) show ?case by simp
qed

lemma order_auth_run_names:
  "order_auth_run d sc acct uo auths c tr \<Longrightarrow> deleted_names tr = published_names tr"
proof (induction rule: order_auth_run.induct)
  case finished
  then show ?case by simp
next
  case (stopped a c tr rest)
  then show ?case by (simp add: authorization_run_names(1))
next
  case (continued a tr1 rest c tr2)
  from authorization_run_names [OF continued(1)] continued(3)
  show ?case by (simp add: published_names_append)
qed

subsection \<open>The only value returned inside the loop is 1\<close>

lemma publish_run_return: "publish_run name data uo c tr \<Longrightarrow> c = Return r \<Longrightarrow> r = 1"
  by (induction rule: publish_run.induct) auto

lemma validate_run_return: "validate_run d ch c tr \<Longrightarrow> c = Return r \<Longrightarrow> r = 1"
  by (induction rule: validate_run.induct) (auto split: if_splits)

lemma cleanup_run_return: "cleanup_run name uo c tr \<Longrightarrow> c \<noteq> Return r"
  by (induction rule: cleanup_run.induct) (auto split: if_splits)

lemma authorization_run_return: "authorization_run d sc acct uo a c tr \<Longrightarrow> c = Return r \<Longrightarrow> r = 1"
proof (induction rule: authorization_run.induct)
  case (cleaned a ch tr1 c1 tr2 c2 tr3)
  then show ?case
    by (cases c2) (auto simp: after_finally_def dest: validate_run_return cleanup_run_return)
qed (auto dest: publish_run_return)

lemma order_auth_run_return: "order_auth_run d sc acct uo auths c tr \<Longrightarrow> c = Return r \<Longrightarrow> r = 1"
  by (induction rule: order_auth_run.induct) (auto dest: authorization_run_return)

subsection \<open>A failed reachability check\<close>

lemma after_finally_Normal [simp]:
  "after_finally c1 c2 = Normal x \<longleftrightarrow> c1 = Normal x \<and> c2 = Normal ()"
  by (cases c2) (auto simp: after_finally_def)

lemma validate_run_head:
  assumes "validate_run d ch c tr"
  shows "c = Normal () \<longrightarrow> (\<forall>e \<in> set tr. \<not> head_failed e)"
    and "\<forall>e \<in> set rest. \<not> head_failed e \<and> \<not> is_respond e \<Longrightarrow> rest \<noteq> [] \<Longrightarrow>
         url_request_for ''DELETE'' (hd rest) = Some (challenge_obj_name ch) \<Longrightarrow> head_ok d (tr @ rest)"
  using assms
  by (induction rule: validate_run.induct) (auto simp: head_ok_none cleanup_follows_def)

lemma authorization_run_head:
  assumes "authorization_run d sc acct uo a c tr"
  shows "head_ok d tr" and "c = Normal () \<longrightarrow> (\<forall>e \<in> set tr. \<not> head_failed e)"
  using assms
proof (induction rule: authorization_run.induct)
  case (unsupported a)
  case 1 show ?case by simp
  case 2 show ?case by simp
next
  case (unpublished a ch c tr)
  case 1 from publish_run_quiet [OF unpublished(2)] show ?case by (simp add: head_ok_none)
  case 2 from unpublished show ?case by simp
next
  case (cleaned a ch tr1 c1 tr2 c2 tr3)
  from publish_run_done(1) [OF cleaned(2)] obtain url where url: "uo = Some url" by blast
  note cl = cleanup_run_some [OF cleaned(4) [unfolded url]]
  note quiet = publish_run_quiet [OF cleaned(2)]
  case 1
  from quiet have "head_ok d (tr1 @ tr2 @ tr3) = head_ok d (tr2 @ tr3)"
    by (simp add: head_ok_append)
  also have "\<dots>" using validate_run_head(2) [OF cleaned(3), of tr3] cl by simp
  finally show ?case by simp
  case 2
  from quiet validate_run_head(1) [OF cleaned(3)] cl(5) show ?case by auto
qed

lemma order_auth_run_head:
  assumes "order_auth_run d sc acct uo auths c tr"
  shows "head_ok d tr" and "c = Normal () \<longrightarrow> (\<forall>e \<in> set tr. \<not> head_failed e)"
  using assms
proof (induction rule: order_auth_run.induct)
  case finished
  case 1 show ?case by simp
  case 2 show ?case by simp
next
  case (stopped a c tr rest)
  case 1 from stopped show ?case by (simp add: authorization_run_head(1))
  case 2 from stopped show ?case by simp
next
  case (continued a tr1 rest c tr2)
  from authorization_run_head(2) [OF continued(1)] have quiet: "\<forall>e \<in> set tr1. \<not> head_failed e" by simp
  case 1 from quiet continued(3) show ?case by (simp add: head_ok_append)
  case 2 from quiet continued(4) show ?case by auto
qed

subsection \<open>Selecting the challenge\<close>

lemma select_challenge_None:
  "select_challenge sc cs = None \<longleftrightarrow> (\<forall>c \<in> set cs. \<not> str_in (ctype c) sc)"
  by (induction cs) auto

lemma select_challenge_first:
  "\<forall>c' \<in> set pre. \<not> str_in (ctype c') sc \<Longrightarrow> str_in (ctype c) sc \<Longrightarrow>
   select_challenge sc (pre @ c # post) = Some c"
  by (induction pre) auto

subsection \<open>Authorizations that passed\<close>

lemma validate_run_valid:
  "validate_run d ch (Normal ()) tr \<Longrightarrow> (poll_request ch, Text ''valid'') \<in> set tr"
  by (induction "Normal () :: (unit, int) completion" tr rule: validate_run.induct)
     (auto split: if_splits)

lemma authorization_run_valid:
  "authorization_run d sc acct uo a (Normal ()) tr \<Longrightarrow>
   \<exists>ch. select_challenge sc (challenges a) = Some ch \<and> (poll_request ch, Text ''valid'') \<in> set tr"
  by (induction a "Normal () :: (unit, int) completion" tr rule: authorization_run.induct)
     (auto dest: validate_run_valid)

lemma order_auth_run_valid:
  "order_auth_run d sc acct uo auths (Normal ()) tr \<Longrightarrow>
   \<forall>a \<in> set auths. \<exists>ch. select_challenge sc (challenges a) = Some ch
      \<and> (poll_request ch, Text ''valid'') \<in> set tr"
  by (induction auths "Normal () :: (unit, int) completion" tr rule: order_auth_run.induct)
     (auto dest: authorization_run_valid)

lemma reported_simps [simp]:
  "reported e \<noteq> Return x" "Return x \<noteq> reported e"
  "reported e = Normal v \<longleftrightarrow> e = HTTPError \<and> v = Inl 1"
  "Normal v = reported e \<longleftrightarrow> e = HTTPError \<and> v = Inl 1"
  "reported e = Raise e' \<longleftrightarrow> e \<noteq> HTTPError \<and> e' = e"
  "Raise e' = reported e \<longleftrightarrow> e \<noteq> HTTPError \<and> e' = e"
  by (auto simp: reported_def)

lemma call_cases:
  assumes "call m h = (c, tr)"
  obtains c' where "m h = (c', tr)"
    "c = (case c' of Normal r \<Rightarrow> Normal r | Return r \<Rightarrow> Normal r | Raise e \<Rightarrow> Raise e)"
  using assms by (auto simp: call_def split: prod.splits completion.splits)

lemma perform_order_reply:
  "bind (perform w req) order_reply h =
     ((case order_of_reply (answer w h req) of Inl e \<Rightarrow> Raise e | Inr ord \<Rightarrow> Normal ord),
      [(req, answer w h req)])"
  by (cases "answer w h req") (simp_all add: prog_simps order_reply_def order_of_reply_def)

lemma new_order_cases:
  assumes "try_except_http (bind (perform w (NewOrder ds)) order_reply) (ret (Inl 1)) h = (c, tr)"
  obtains (refused) r e where "tr = [(NewOrder ds, r)]" "order_of_reply r = Inl e"
            "c = (if e = HTTPError then Return (Inl 1) else Raise e)"
        | (created) ord where "tr = [(NewOrder ds, OrderHandle ord)]" "c = Normal ord"
proof (cases "order_of_reply (answer w h (NewOrder ds))")
  case (Inl e)
  with assms have "tr = [(NewOrder ds, answer w h (NewOrder ds))]"
    "c = (if e = HTTPError then Return (Inl 1) else Raise e)"
    by (auto simp: try_except_http_def perform_order_reply ret_def split: if_splits)
  with Inl show ?thesis by (intro that(1)) auto
next
  case (Inr ord)
  then have "answer w h (NewOrder ds) = OrderHandle ord"
    by (simp add: order_of_reply_def split: reply.splits)
  with assms Inr show ?thesis
    by (intro that(2)) (auto simp: try_except_http_def perform_order_reply)
qed

lemma finalize_cases:
  assumes "try_except_http
     (bind (bind (perform w (OrderFinalize ord csr)) no_reply) (\<lambda>_.
      bind (perform w (OrderPollUntilNot ord [''processing''])) text_reply))
     (ret (Inl 1)) h = (c, tr)"
  obtains (finalize_failed) e where "tr = [(OrderFinalize ord csr, Fails e)]"
            "c = (if e = HTTPError then Return (Inl 1) else Raise e)"
        | (poll_failed) r1 r2 e where "tr = [(OrderFinalize ord csr, r1), (order_poll_request ord, r2)]"
            "\<forall>e. r1 \<noteq> Fails e" "text_of_reply r2 = Inl e"
            "c = (if e = HTTPError then Return (Inl 1) else Raise e)"
        | (polled) r1 polled where "tr = [(OrderFinalize ord csr, r1), (order_poll_request ord, Text polled)]"
            "\<forall>e. r1 \<noteq> Fails e" "c = Normal polled"
proof -
  define r1 where "r1 = answer w h (OrderFinalize ord csr)"
  define r2 where "r2 = answer w (h @ [(OrderFinalize ord csr, r1)]) (order_poll_request ord)"
  have inner: "bind (bind (perform w (OrderFinalize ord csr)) no_reply) (\<lambda>_.
      bind (perform w (OrderPollUntilNot ord [''processing''])) text_reply) h =
   (case failure_of_reply r1 of
      Some e \<Rightarrow> (Raise e, [(OrderFinalize ord csr, r1)])
    | None \<Rightarrow>
        ((case text_of_reply r2 of Inl e \<Rightarrow> Raise e | Inr polled \<Rightarrow> Normal polled),
         [(OrderFinalize ord csr, r1), (order_poll_request ord, r2)]))"
    by (subst bind_def)
       (simp add: perform_no_reply perform_text_reply order_poll_request_def r1_def r2_def
          split: option.splits)
  note run = assms [unfolded try_except_http_def inner]
  show ?thesis
  proof (cases "failure_of_reply r1")
    case (Some e)
    then have r1: "r1 = Fails e" by (simp add: failure_of_reply_def split: reply.splits)
    from run Some have "tr = [(OrderFinalize ord csr, Fails e)]"
      "c = (if e = HTTPError then Return (Inl 1) else Raise e)"
      unfolding r1 by (auto simp: ret_def split: if_splits)
    then show ?thesis by (rule that(1))
  next
    case None
    then have r1: "\<forall>e. r1 \<noteq> Fails e" by (auto simp: failure_of_reply_def)
    show ?thesis
    proof (cases "text_of_reply r2")
      case (Inl e)
      from run None Inl have "tr = [(OrderFinalize ord csr, r1), (order_poll_request ord, r2)]"
        "c = (if e = HTTPError then Return (Inl 1) else Raise e)"
        by (auto simp: ret_def split: if_splits)
      from this(1) r1 Inl this(2) show ?thesis by (rule that(2))
    next
      case (Inr polled)
      then have r2: "r2 = Text polled" by (simp add: text_of_reply_def split: reply.splits)
      from run None Inr have "tr = [(OrderFinalize ord csr, r1), (order_poll_request ord, Text polled)]"
        "c = Normal polled"
        by (auto simp: r2)
      from this(1) r1 this(2) show ?thesis by (rule that(3))
    qed
  qed
qed

lemma certificate_cases:
  assumes "try_except_http (bind (perform w (OrderCertificate ord)) text_reply) (ret (Inl 1)) h = (c, tr)"
  obtains (fetch_failed) r e where "tr = [(OrderCertificate ord, r)]" "text_of_reply r = Inl e"
            "c = (if e = HTTPError then Return (Inl 1) else Raise e)"
        | (fetched) certificate where "tr = [(OrderCertificate ord, Text certificate)]" "c = Normal certificate"
proof (cases "text_of_reply (answer w h (OrderCertificate ord))")
  case (Inl e)
  with assms have "tr = [(OrderCertificate ord, answer w h (OrderCertificate ord))]"
    "c = (if e = HTTPError then Return (Inl 1) else Raise e)"
    by (auto simp: try_except_http_def perform_text_reply ret_def split: if_splits)
  with Inl show ?thesis by (intro that(1)) auto
next
  case (Inr certificate)
  then have "answer w h (OrderCertificate ord) = Text certificate"
    by (simp add: text_of_reply_def split: reply.splits)
  with assms Inr show ?thesis
    by (intro that(2)) (auto simp: try_except_http_def perform_text_reply)
qed

lemma creating_acme_order_run:
  assumes "creating_acme_order w d cl l sc acct csr os h = (c, tr)"
  shows "creating_run d sc acct csr (urljoin (netloc_ok w) (linode_api os) (object_url_ref cl l)) c tr"
proof -
  let ?uo = "urljoin (netloc_ok w) (linode_api os) (object_url_ref cl l)"
  from assms [unfolded creating_acme_order_def Let_def] obtain c' where
    body: "bind (try_except_http (bind (perform w (NewOrder [d])) order_reply) (ret (Inl 1))) (\<lambda>ord.
       bind (order_auth w ord d cl l sc acct os) (\<lambda>order_auth_status.
       if order_auth_status = 1 then ret (Inl 1)
       else
       bind (try_except_http
               (bind (bind (perform w (OrderFinalize ord csr)) no_reply) (\<lambda>_.
                bind (perform w (OrderPollUntilNot ord [''processing''])) text_reply))
               (ret (Inl 1))) (\<lambda>polled.
       if order_status (ord\<lparr>order_status := polled\<rparr>) \<noteq> ''valid'' then ret (Inl 1)
       else
       bind (try_except_http
               (bind (perform w (OrderCertificate (ord\<lparr>order_status := polled\<rparr>))) text_reply)
               (ret (Inl 1))) (\<lambda>certificate.
       ret (Inr certificate))))) h = (c', tr)"
    and c: "c = (case c' of Normal r \<Rightarrow> Normal r | Return r \<Rightarrow> Normal r | Raise e \<Rightarrow> Raise e)"
    by (rule call_cases)
  from body show ?thesis
  proof (cases rule: bind_cases)
    case (return r)
    from return(1) show ?thesis using return(2) c
      by (cases rule: new_order_cases) (auto intro!: creating_run.order_refused split: if_splits)
  next
    case (raise e)
    from raise(1) show ?thesis using raise(2) c
      by (cases rule: new_order_cases) (auto intro!: creating_run.order_refused split: if_splits)
  next
    case new: (normal ord tr1 tr2)
    from new(1) have tr1: "tr1 = [(NewOrder [d], OrderHandle ord)]"
      by (cases rule: new_order_cases) (auto split: if_splits)
    from new(2) show ?thesis
    proof (cases rule: bind_cases)
      case (return r)
      from return(1) show ?thesis by (elim order_auth_run) (simp add: returned_def split: completion.splits)
    next
      case (raise e)
      from raise(1) obtain ca where ca: "order_auth_run d sc acct ?uo (authorizations ord) ca tr2"
        "(Raise e :: (int, int + string) completion) = returned 0 ca" by (rule order_auth_run)
      from ca(2) have "ca = Raise e" by (cases ca) (simp_all add: returned_def)
      with ca(1) raise(2) c show ?thesis unfolding new(3) tr1
        by (auto intro!: creating_run.not_authorized)
    next
      case auth: (normal st tr3 tr4)
      from auth(1) obtain ca where ca: "order_auth_run d sc acct ?uo (authorizations ord) ca tr3"
        "(Normal st :: (int, int + string) completion) = returned 0 ca" by (rule order_auth_run)
      show ?thesis
      proof (cases "st = 1")
        case True
        with auth(2) have 4: "tr4 = []" "c' = Return (Inl 1)" by (simp_all add: ret_def)
        from ca(2) True have "ca = Return 1" by (cases ca) (simp_all add: returned_def)
        with ca(1) 4 c show ?thesis unfolding new(3) auth(3) tr1
          by (auto intro!: creating_run.not_authorized)
      next
        case False
        from ca False order_auth_run_return [OF ca(1)] have ok: "ca = Normal ()"
          by (cases ca) (auto simp: returned_def)
        note authd = ca(1) [unfolded ok]
        from auth(2) False have
          "bind (try_except_http
               (bind (bind (perform w (OrderFinalize ord csr)) no_reply) (\<lambda>_.
                bind (perform w (OrderPollUntilNot ord [''processing''])) text_reply))
               (ret (Inl 1))) (\<lambda>polled.
            if order_status (ord\<lparr>order_status := polled\<rparr>) \<noteq> ''valid'' then ret (Inl 1)
            else
            bind (try_except_http
               (bind (perform w (OrderCertificate (ord\<lparr>order_status := polled\<rparr>))) text_reply)
               (ret (Inl 1))) (\<lambda>certificate.
            ret (Inr certificate))) (h @ tr1 @ tr3) = (c', tr4)"
          by simp
        then show ?thesis
        proof (cases rule: bind_cases)
          case (return r)
          from return(1) show ?thesis using return(2) c authd unfolding new(3) auth(3) tr1
            by (cases rule: finalize_cases)
               (auto intro!: creating_run.finalize_failed creating_run.order_poll_failed split: if_splits)
        next
          case (raise e)
          from raise(1) show ?thesis using raise(2) c authd unfolding new(3) auth(3) tr1
            by (cases rule: finalize_cases)
               (auto intro!: creating_run.finalize_failed creating_run.order_poll_failed split: if_splits)
        next
          case fin: (normal polled tr5 tr6)
          from fin(1) obtain r1 where tr5: "tr5 = [(OrderFinalize ord csr, r1), (order_poll_request ord, Text polled)]"
            "\<forall>e. r1 \<noteq> Fails e"
            by (cases rule: finalize_cases) (auto split: if_splits)
          show ?thesis
          proof (cases "polled = ''valid''")
            case False
            with fin(2) have "tr6 = []" "c' = Return (Inl 1)" by (simp_all add: ret_def)
            with c False authd tr5 show ?thesis unfolding new(3) auth(3) fin(3) tr1
              by (auto intro!: creating_run.not_valid)
          next
            case True
            with fin(2) have
              "bind (try_except_http
                 (bind (perform w (OrderCertificate (ord\<lparr>order_status := ''valid''\<rparr>))) text_reply)
                 (ret (Inl 1))) (\<lambda>certificate. ret (Inr certificate)) ((h @ tr1 @ tr3) @ tr5) = (c', tr6)"
              by simp
            then show ?thesis
            proof (cases rule: bind_cases)
              case (return r)
              from return(1) show ?thesis using return(2) c authd tr5 True
                unfolding new(3) auth(3) fin(3) tr1
                by (cases rule: certificate_cases)
                   (auto intro!: creating_run.fetch_failed split: if_splits)
            next
              case (raise e)
              from raise(1) show ?thesis using raise(2) c authd tr5 True
                unfolding new(3) auth(3) fin(3) tr1
                by (cases rule: certificate_cases)
                   (auto intro!: creating_run.fetch_failed split: if_splits)
            next
              case (normal certificate tr7 tr8)
              from normal(2) have "tr8 = []" "c' = Return (Inr certificate)" by (simp_all add: ret_def)
              moreover from normal(1) have "tr7 = [(OrderCertificate (ord\<lparr>order_status := ''valid''\<rparr>), Text certificate)]"
                by (cases rule: certificate_cases) (auto split: if_splits)
              ultimately show ?thesis using c authd tr5 True
                unfolding new(3) auth(3) fin(3) normal(3) tr1
                by (auto intro!: creating_run.issued)
            qed
          qed
        qed
      qed
    qed
  qed
qed

lemma authorization_event_simps [simp]:
  "authorization_event (put_url_request url name, r)"
  "authorization_event (delete_url_request url name, r)"
  "authorization_event (put_request u data, r)"
  "authorization_event (acl_request url name, r)"
  "authorization_event (head_request d name, r)"
  "authorization_event (poll_request ch, r)"
  "authorization_event (ChallengeRespond ch, r)"
  "authorization_event (PlainRequest m u b hs, r)"
  "\<not> authorization_event (NewOrder ds, r)"
  "\<not> authorization_event (OrderFinalize ord csr, r)"
  "\<not> authorization_event (OrderPollUntilNot ord ss, r)"
  "\<not> authorization_event (order_poll_request ord, r)"
  "\<not> authorization_event (OrderCertificate ord, r)"
  "\<not> authorization_event (NewAccount tos, r)"
  "\<not> authorization_event (SessionClose n, r)"
  by (simp_all add: authorization_event_def put_url_request_def delete_url_request_def put_request_def
        acl_request_def head_request_def poll_request_def order_poll_request_def)

lemma publish_run_events: "publish_run name data uo c tr \<Longrightarrow> \<forall>ev \<in> set tr. authorization_event ev"
  by (induction rule: publish_run.induct) auto

lemma validate_run_events: "validate_run d ch c tr \<Longrightarrow> \<forall>ev \<in> set tr. authorization_event ev"
  by (induction rule: validate_run.induct) auto

lemma cleanup_run_events: "cleanup_run name uo c tr \<Longrightarrow> \<forall>ev \<in> set tr. authorization_event ev"
  by (induction rule: cleanup_run.induct) auto

lemma authorization_run_events:
  "authorization_run d sc acct uo a c tr \<Longrightarrow> \<forall>ev \<in> set tr. authorization_event ev"
  by (induction rule: authorization_run.induct)
     (auto dest: publish_run_events validate_run_events cleanup_run_events)

lemma order_auth_run_events:
  "order_auth_run d sc acct uo auths c tr \<Longrightarrow> \<forall>ev \<in> set tr. authorization_event ev"
  by (induction rule: order_auth_run.induct) (auto dest: authorization_run_events)

lemma creating_run_finalized:
  assumes "creating_run d sc acct csr uo c tr" and "(OrderFinalize ord csr', r) \<in> set tr"
  shows "\<forall>a \<in> set (authorizations ord). \<exists>ch. select_challenge sc (challenges a) = Some ch
           \<and> (poll_request ch, Text ''valid'') \<in> set tr"
  using assms
proof (induction rule: creating_run.induct)
  case (order_refused r e c)
  then show ?case by simp
next
  case (not_authorized ord' ca tr c)
  with order_auth_run_events [OF not_authorized(1)] show ?case by auto
next
  case (finalize_failed ord' tr c e)
  from finalize_failed(3) order_auth_run_events [OF finalize_failed(1)] have "ord' = ord" by auto
  with order_auth_run_valid [OF finalize_failed(1)] show ?case by auto
next
  case (order_poll_failed ord' tr r1 r2 e c)
  from order_poll_failed(5) order_auth_run_events [OF order_poll_failed(1)] have "ord' = ord"
    by (auto simp: order_poll_request_def)
  with order_auth_run_valid [OF order_poll_failed(1)] show ?case by auto
next
  case (not_valid ord' tr r1 polled)
  from not_valid(4) order_auth_run_events [OF not_valid(1)] have "ord' = ord"
    by (auto simp: order_poll_request_def)
  with order_auth_run_valid [OF not_valid(1)] show ?case by auto
next
  case (fetch_failed ord' tr r1 r3 e c)
  from fetch_failed(5) order_auth_run_events [OF fetch_failed(1)] have "ord' = ord"
    by (auto simp: order_poll_request_def)
  with order_auth_run_valid [OF fetch_failed(1)] show ?case by auto
next
  case (issued ord' tr r1 certificate)
  from issued(3) order_auth_run_events [OF issued(1)] have "ord' = ord"
    by (auto simp: order_poll_request_def)
  with order_auth_run_valid [OF issued(1)] show ?case by auto
qed

lemma is_certificate_fetch_authorization: "authorization_event ev \<Longrightarrow> \<not> is_certificate_fetch ev"
  by (auto simp: is_certificate_fetch_def authorization_event_def split: request.splits)

lemma is_certificate_fetch_simps [simp]:
  "\<not> is_certificate_fetch (NewOrder ds, r)"
  "\<not> is_certificate_fetch (OrderFinalize ord csr, r)"
  "\<not> is_certificate_fetch (order_poll_request ord, r)"
  "is_certificate_fetch (OrderCertificate ord, r)"
  by (simp_all add: is_certificate_fetch_def order_poll_request_def)

lemma creating_run_not_valid:
  assumes "creating_run d sc acct csr uo c tr" and "(OrderPollUntilNot ord ss, Text s) \<in> set tr"
    and "s \<noteq> ''valid''"
  shows "c = Normal (Inl 1) \<and> (\<forall>ev \<in> set tr. \<not> is_certificate_fetch ev)"
  using assms(1)
proof (cases rule: creating_run.cases)
  case (order_refused r e)
  with assms(2) show ?thesis by simp
next
  case (not_authorized ord' ca tr')
  with assms(2) order_auth_run_events [OF not_authorized(2)] show ?thesis by auto
next
  case (finalize_failed ord' tr' e)
  with assms(2) order_auth_run_events [OF finalize_failed(2)] show ?thesis by auto
next
  case (order_poll_failed ord' tr' r1 r2 e)
  with assms(2) order_auth_run_events [OF order_poll_failed(2)] show ?thesis
    by (auto simp: order_poll_request_def text_of_reply_def)
next
  case (not_valid ord' tr' r1 polled)
  with order_auth_run_events [OF not_valid(3)] show ?thesis
    by (auto dest: is_certificate_fetch_authorization)
next
  case (fetch_failed ord' tr' r1 r3 e)
  with assms(2,3) order_auth_run_events [OF fetch_failed(2)] show ?thesis
    by (auto simp: order_poll_request_def)
next
  case (issued ord' tr' r1 certificate)
  with assms(2,3) order_auth_run_events [OF issued(3)] show ?thesis
    by (auto simp: order_poll_request_def)
qed

lemma head_404_run:
  "order_auth head_404_world example_order ''example.com'' ''us-east'' ''my-site'' ''http-01''
     example_account example_storage [] =
   (Normal 1 :: (int, int) completion,
    [grant_put_event, put_event (HttpResponse 200 None), acl_event (HttpResponse 200 (Some (JObj [])))]
      @ head_event (HttpResponse 404 None) # [grant_delete_event, delete_event])"
  by code_simp

lemma put_403_run:
  "order_auth put_403_world example_order ''example.com'' ''us-east'' ''my-site'' ''http-01''
     example_account example_storage [] =
   (Normal 1 :: (int, int) completion, [grant_put_event, put_event (HttpResponse 403 None)])"
  by code_simp

lemma happy_order_run:
  "creating_acme_order happy_world ''example.com'' ''us-east'' ''my-site'' ''http-01''
     example_account example_csr example_storage [] =
   (Normal (Inr ''CERT'') :: (int + string, int) completion,
    (NewOrder [''example.com''], OrderHandle example_order) # authorization_events
      @ [(OrderFinalize example_order example_csr, NoValue),
         (OrderPollUntilNot example_order [''processing''], Text ''valid''),
         (OrderCertificate (example_order\<lparr>order_status := ''valid''\<rparr>), Text ''CERT'')])"
  by code_simp

lemma order_invalid_run:
  "creating_acme_order order_invalid_world ''example.com'' ''us-east'' ''my-site'' ''http-01''
     example_account example_csr example_storage [] =
   (Normal (Inl 1) :: (int + string, int) completion,
    (NewOrder [''example.com''], OrderHandle example_order) # authorization_events
      @ [(OrderFinalize example_order example_csr, NoValue),
         (OrderPollUntilNot example_order [''processing''], Text ''invalid'')])"
  by code_simp

subsection \<open>A failed reachability check, within one authorization\<close>

lemma validate_run_head_no_respond:
  "validate_run d ch c tr \<Longrightarrow> list_ex head_failed tr \<Longrightarrow> filter is_respond tr = []"
  by (induction rule: validate_run.induct) auto

lemma authorization_run_head_no_respond:
  assumes "authorization_run d sc acct uo a c tr" and "list_ex head_failed tr"
  shows "c \<noteq> Normal () \<and> filter is_respond tr = []"
  using assms
proof (cases rule: authorization_run.cases)
  case unsupported
  with assms(2) show ?thesis by simp
next
  case (unpublished ch)
  with publish_run_quiet [OF unpublished(2)] assms(2) show ?thesis
    by (auto simp: list_ex_iff)
next
  case (cleaned ch tr1 c1 tr2 c2 tr3)
  from publish_run_done(1) [OF cleaned(4)] obtain url where url: "uo = Some url" by blast
  note cl = cleanup_run_some [OF cleaned(6) [unfolded url]]
  note quiet = publish_run_quiet [OF cleaned(4)]
  from assms(2) cleaned(2) quiet cl(5) have head: "list_ex head_failed tr2"
    by (auto simp: list_ex_iff)
  from validate_run_head_no_respond [OF cleaned(5) head] quiet cl(5) cleaned(2)
  have "filter is_respond tr = []" by (auto simp: filter_empty_conv)
  moreover from validate_run_head(1) [OF cleaned(5)] head have "c1 \<noteq> Normal ()"
    by (auto simp: list_ex_iff)
  with cleaned(1) have "c \<noteq> Normal ()" by simp
  ultimately show ?thesis by simp
qed

lemma dns_not_supported: "\<not> str_in ''dns-01'' ''http-01''"
  by code_simp

lemma http_supported: "str_in ''http-01'' ''http-01''"
  by code_simp

lemma example_name: "challenge_obj_name http_challenge = example_name"
  by code_simp

section \<open>The claims\<close>

text \<open>
  C1, as amended. In every run of \<open>order_auth\<close>, a delete is attempted (a \<open>DELETE\<close> URL is
  asked for) for exactly the proof objects whose publication succeeded (a \<open>PUT\<close> URL was
  granted and the \<open>PUT\<close> to it came back with a success status): the same names, in the same
  order, each as often as it was published.
\<close>

theorem order_auth_deletes_what_it_published:
  "deleted_names (snd (order_auth w ord s3_domain s3_cluster s3_label acme_supported_challenges
       account object_storage h :: (int, 'q) completion \<times> event list))
     = published_names (snd (order_auth w ord s3_domain s3_cluster s3_label acme_supported_challenges
       account object_storage h :: (int, 'q) completion \<times> event list))"
proof -
  obtain c :: "(int, 'q) completion" and tr where
    run: "order_auth w ord s3_domain s3_cluster s3_label acme_supported_challenges account object_storage h = (c, tr)"
    by (cases "order_auth w ord s3_domain s3_cluster s3_label acme_supported_challenges account object_storage h :: (int, 'q) completion \<times> event list")
  from run have "deleted_names tr = published_names tr"
    by (elim order_auth_run) (simp add: order_auth_run_names)
  with run show ?thesis by simp
qed

text \<open>
  C1 as stated fails: when the storage refuses the \<open>PUT\<close> of the proof object with status
  403, \<open>order_auth\<close> returns 1 after one \<open>PUT\<close> attempt and no delete attempt.
\<close>

theorem refused_put_is_not_deleted:
  "fst (order_auth put_403_world example_order ''example.com'' ''us-east'' ''my-site'' ''http-01''
          example_account example_storage []) = (Normal 1 :: (int, int) completion)
   \<and> length (filter is_put (snd (order_auth put_403_world example_order ''example.com'' ''us-east''
          ''my-site'' ''http-01'' example_account example_storage []
          :: (int, int) completion \<times> event list))) = 1
   \<and> length (deleted_names (snd (order_auth put_403_world example_order ''example.com'' ''us-east''
          ''my-site'' ''http-01'' example_account example_storage []
          :: (int, int) completion \<times> event list))) = 0
   \<and> length (filter is_delete (snd (order_auth put_403_world example_order ''example.com'' ''us-east''
          ''my-site'' ''http-01'' example_account example_storage []
          :: (int, int) completion \<times> event list))) = 0"
  by (simp add: put_403_run is_put_def is_delete_def put_event_def grant_put_event_def
      deleted_names_def url_request_for_def List.map_filter_simps)

text \<open>
  C4. A run of \<open>creating_acme_order\<close> that calls \<open>order.finalize\<close> has, for every
  authorization of the order, selected a challenge and seen its poll end with status
  \<open>valid\<close>. So when an authorization fails, the run has no call of \<open>finalize\<close>.
\<close>

theorem finalize_only_after_all_valid:
  assumes "creating_acme_order w s3_domain s3_cluster s3_label acme_supported_challenges account csr
             object_storage h = (c, tr)"
    and "(OrderFinalize ord csr', r) \<in> set tr"
  shows "\<forall>a \<in> set (authorizations ord). \<exists>ch.
            select_challenge acme_supported_challenges (challenges a) = Some ch
            \<and> (ChallengePollUntilNot ch [''processing'', ''pending''], Text ''valid'') \<in> set tr"
  using creating_run_finalized [OF creating_acme_order_run [OF assms(1)] assms(2)]
  by (simp add: poll_request_def)

text \<open>C4 on the run in which every party cooperates.\<close>

theorem finalize_only_after_all_valid_witness:
  "(OrderFinalize example_order example_csr, NoValue)
     \<in> set (snd (creating_acme_order happy_world ''example.com'' ''us-east'' ''my-site'' ''http-01''
                   example_account example_csr example_storage []
                 :: (int + string, int) completion \<times> event list))
   \<and> select_challenge ''http-01'' example_challenges = Some http_challenge
   \<and> (ChallengePollUntilNot http_challenge [''processing'', ''pending''], Text ''valid'')
     \<in> set (snd (creating_acme_order happy_world ''example.com'' ''us-east'' ''my-site'' ''http-01''
                   example_account example_csr example_storage []
                 :: (int + string, int) completion \<times> event list))"
  using finalize_only_after_all_valid [OF happy_order_run, of example_order example_csr NoValue]
    dns_not_supported http_supported
  by (simp add: happy_order_run authorization_events_def challenge_poll_event_def
      example_order_def example_challenges_def http_challenge_def)

text \<open>
  C5. An authorization none of whose challenges has a type contained in
  \<open>acme_supported_challenges\<close> makes the loop body return 1 with no event at all, so with no
  request to the storage, and \<open>order_auth\<close> return 1 when it is the first of the order. When
  a challenge matches and none before it does, it is the one selected, and the authorization
  is handled as if it were the only challenge.
\<close>

theorem unsupported_challenge_fails_without_request:
  "(list_all (\<lambda>c. \<not> str_in (ctype c) acme_supported_challenges) (challenges a) \<longrightarrow>
      order_auth_authorization w s3_domain s3_cluster s3_label acme_supported_challenges account
        object_storage a h = (Return 1, [])
      \<and> order_auth w (ord\<lparr>authorizations := a # rest\<rparr>) s3_domain s3_cluster s3_label
          acme_supported_challenges account object_storage h
        = (Normal 1 :: (int, 'q) completion, []))
   \<and> (list_all (\<lambda>c. \<not> str_in (ctype c) acme_supported_challenges) before
        \<and> str_in (ctype ch) acme_supported_challenges \<longrightarrow>
      select_challenge acme_supported_challenges (before @ ch # after) = Some ch
      \<and> order_auth_authorization w s3_domain s3_cluster s3_label acme_supported_challenges account
          object_storage \<lparr>challenges = before @ ch # after\<rparr> h
        = order_auth_authorization w s3_domain s3_cluster s3_label acme_supported_challenges account
            object_storage \<lparr>challenges = [ch]\<rparr> h)"
proof (intro conjI impI)
  assume none: "list_all (\<lambda>c. \<not> str_in (ctype c) acme_supported_challenges) (challenges a)"
  then have sel: "select_challenge acme_supported_challenges (challenges a) = None"
    by (simp add: select_challenge_None list_all_iff)
  then show body: "order_auth_authorization w s3_domain s3_cluster s3_label acme_supported_challenges
      account object_storage a h = (Return 1, [])"
    by (simp add: order_auth_authorization_steps ret_def)
  then show "order_auth w (ord\<lparr>authorizations := a # rest\<rparr>) s3_domain s3_cluster s3_label
          acme_supported_challenges account object_storage h
        = (Normal 1 :: (int, 'q) completion, [])"
    by (simp add: order_auth_def call_def bind_def)
next
  assume "list_all (\<lambda>c. \<not> str_in (ctype c) acme_supported_challenges) before
        \<and> str_in (ctype ch) acme_supported_challenges"
  then have match: "str_in (ctype ch) acme_supported_challenges"
    and sel: "select_challenge acme_supported_challenges (before @ ch # after) = Some ch"
    by (simp_all add: select_challenge_first list_all_iff)
  from sel show "select_challenge acme_supported_challenges (before @ ch # after) = Some ch" .
  from sel match show "order_auth_authorization w s3_domain s3_cluster s3_label acme_supported_challenges account
          object_storage \<lparr>challenges = before @ ch # after\<rparr> h
        = order_auth_authorization w s3_domain s3_cluster s3_label acme_supported_challenges account
            object_storage \<lparr>challenges = [ch]\<rparr> h"
    by (simp add: order_auth_authorization_steps)
qed

text \<open>
  C5 on an authorization that offers only \<open>dns-01\<close> when \<open>http-01\<close> is supported, and on
  one that offers \<open>dns-01\<close> and then \<open>http-01\<close>.
\<close>

theorem unsupported_challenge_fails_without_request_witness:
  "order_auth_authorization happy_world ''example.com'' ''us-east'' ''my-site'' ''http-01''
        example_account example_storage \<lparr>challenges = [dns_challenge]\<rparr> [] = (Return 1, [])
   \<and> order_auth happy_world (example_order\<lparr>authorizations := [\<lparr>challenges = [dns_challenge]\<rparr>]\<rparr>)
        ''example.com'' ''us-east'' ''my-site'' ''http-01'' example_account example_storage []
      = (Normal 1 :: (int, int) completion, [])
   \<and> select_challenge ''http-01'' ([dns_challenge] @ http_challenge # []) = Some http_challenge
   \<and> order_auth_authorization happy_world ''example.com'' ''us-east'' ''my-site'' ''http-01''
        example_account example_storage \<lparr>challenges = [dns_challenge] @ http_challenge # []\<rparr> []
      = order_auth_authorization happy_world ''example.com'' ''us-east'' ''my-site'' ''http-01''
          example_account example_storage \<lparr>challenges = [http_challenge]\<rparr> []"
  using unsupported_challenge_fails_without_request
    [where acme_supported_challenges = "''http-01''" and a = "\<lparr>challenges = [dns_challenge]\<rparr>"
       and w = happy_world and ?s3_domain = "''example.com''" and ?s3_cluster = "''us-east''"
       and ?s3_label = "''my-site''" and account = example_account
       and object_storage = example_storage and h = "[]" and ord = example_order and rest = "[]"
       and before = "[dns_challenge]" and ch = http_challenge and after = "[]" and ?'q = int]
    dns_not_supported http_supported
  by (simp add: dns_challenge_def http_challenge_def)

text \<open>
  C6. When the poll after \<open>order.finalize\<close> ends with a status other than \<open>valid\<close>,
  \<open>creating_acme_order\<close> returns 1 and its run has no call of \<open>order.certificate\<close>.
\<close>

theorem no_fetch_when_order_not_valid:
  assumes "creating_acme_order w s3_domain s3_cluster s3_label acme_supported_challenges account csr
             object_storage h = (c, tr)"
    and "(OrderPollUntilNot ord ss, Text s) \<in> set tr" and "s \<noteq> ''valid''"
  shows "c = Normal (Inl 1) \<and> filter is_certificate_fetch tr = []"
  using creating_run_not_valid [OF creating_acme_order_run [OF assms(1)] assms(2,3)]
  by (simp add: filter_empty_conv)

text \<open>C6 on the run in which the order ends \<open>invalid\<close>.\<close>

theorem no_fetch_when_order_not_valid_witness:
  "(OrderPollUntilNot example_order [''processing''], Text ''invalid'')
     \<in> set (snd (creating_acme_order order_invalid_world ''example.com'' ''us-east'' ''my-site''
                   ''http-01'' example_account example_csr example_storage []
                 :: (int + string, int) completion \<times> event list))
   \<and> ''invalid'' \<noteq> ''valid''
   \<and> fst (creating_acme_order order_invalid_world ''example.com'' ''us-east'' ''my-site''
            ''http-01'' example_account example_csr example_storage [])
      = (Normal (Inl 1) :: (int + string, int) completion)
   \<and> filter is_certificate_fetch
        (snd (creating_acme_order order_invalid_world ''example.com'' ''us-east'' ''my-site''
                ''http-01'' example_account example_csr example_storage []
              :: (int + string, int) completion \<times> event list)) = []"
  using no_fetch_when_order_not_valid
    [OF order_invalid_run, of example_order "[''processing'']" "''invalid''"]
  by (simp add: order_invalid_run)

text \<open>
  C7. When the \<open>HEAD\<close> request for the proof object fails, the handling of that
  authorization sends no \<open>respond\<close> at all and does not end normally; and in the run of
  \<open>order_auth\<close> nothing is responded to after the failed request, the next event is the
  request of a \<open>DELETE\<close> URL for the proof object that was checked, and \<open>order_auth\<close> does
  not return 0.
\<close>

theorem failed_head_no_respond_then_cleanup:
  "(order_auth_authorization w s3_domain s3_cluster s3_label acme_supported_challenges account
        object_storage a h = (c1, tr) \<and> list_ex head_failed tr \<longrightarrow>
      c1 \<noteq> Normal () \<and> filter is_respond tr = [])
   \<and> (order_auth w ord s3_domain s3_cluster s3_label acme_supported_challenges account
        object_storage h = (c, pre @ e # post) \<and> head_failed e \<longrightarrow>
      c \<noteq> Normal 0 \<and> filter is_respond post = []
      \<and> (\<exists>ch. fst e = head_request s3_domain (challenge_obj_name ch) \<and> post \<noteq> []
             \<and> url_request_for ''DELETE'' (hd post) = Some (challenge_obj_name ch)))"
proof (intro conjI impI)
  assume "order_auth_authorization w s3_domain s3_cluster s3_label acme_supported_challenges account
        object_storage a h = (c1, tr) \<and> list_ex head_failed tr"
  then have run: "authorization_run s3_domain acme_supported_challenges account
            (urljoin (netloc_ok w) (linode_api object_storage) (object_url_ref s3_cluster s3_label))
            a c1 tr" and head: "list_ex head_failed tr"
    by (auto intro: order_auth_authorization_run)
  from authorization_run_head_no_respond [OF run head]
  show "c1 \<noteq> Normal ()" and "filter is_respond tr = []" by simp_all
next
  assume asm: "order_auth w ord s3_domain s3_cluster s3_label acme_supported_challenges account
        object_storage h = (c, pre @ e # post) \<and> head_failed e"
  then obtain c' where
    run: "order_auth_run s3_domain acme_supported_challenges account
            (urljoin (netloc_ok w) (linode_api object_storage) (object_url_ref s3_cluster s3_label))
            (authorizations ord) c' (pre @ e # post)"
    and c: "c = returned 0 c'"
    by (elim conjE order_auth_run)
  from order_auth_run_head(2) [OF run] asm have "c' \<noteq> Normal ()" by auto
  with c order_auth_run_return [OF run] show "c \<noteq> Normal 0"
    by (cases c') (auto simp: returned_def)
  from order_auth_run_head(1) [OF run] asm have "cleanup_follows s3_domain e post"
    by (auto intro: head_ok_split)
  then show "filter is_respond post = []"
    and "\<exists>ch. fst e = head_request s3_domain (challenge_obj_name ch) \<and> post \<noteq> []
           \<and> url_request_for ''DELETE'' (hd post) = Some (challenge_obj_name ch)"
    by (auto simp: cleanup_follows_def filter_empty_conv)
qed

text \<open>C7 on the run in which the \<open>HEAD\<close> request comes back with status 404.\<close>

theorem failed_head_no_respond_then_cleanup_witness:
  "order_auth head_404_world example_order ''example.com'' ''us-east'' ''my-site'' ''http-01''
       example_account example_storage []
     = (Normal 1 :: (int, int) completion,
        [grant_put_event, put_event (HttpResponse 200 None), acl_event (HttpResponse 200 (Some (JObj [])))]
          @ head_event (HttpResponse 404 None) # [grant_delete_event, delete_event])
   \<and> head_failed (head_event (HttpResponse 404 None))
   \<and> (Normal 1 :: (int, int) completion) \<noteq> Normal 0
   \<and> filter is_respond [grant_delete_event, delete_event] = []
   \<and> (\<exists>ch. fst (head_event (HttpResponse 404 None))
               = head_request ''example.com'' (challenge_obj_name ch)
           \<and> [grant_delete_event, delete_event] \<noteq> []
           \<and> url_request_for ''DELETE'' (hd [grant_delete_event, delete_event])
               = Some (challenge_obj_name ch))"
proof -
  have head: "head_failed (head_event (HttpResponse 404 None))"
    by (simp add: head_event_def head_failed_def status_check_def raise_for_status_def)
  from failed_head_no_respond_then_cleanup [THEN conjunct2, rule_format, OF conjI [OF head_404_run head]]
    head_404_run head
  show ?thesis by blast
qed

end
